theory Spec2Isabelle
  imports Main
begin

section \<open>Data model\<close>

text \<open>
  The wizard state of the apply flow (\<open>ApplyState\<close> of
  \<open>~/route-helpers/apply-route-helpers.server\<close>): an object whose optional members are
  filled step by step. Every optional member is an \<open>option\<close>; \<open>None\<close> is JavaScript's
  \<open>undefined\<close>. Members that no modelled function looks into are kept as opaque
  key/value payloads.
\<close>

datatype TypeOfApplication = Adult | AdultChild | Child | Delegate

type_synonym Payload = "(string \<times> string) list"

record SubmissionInfo =
  confirmationCode :: string
  submittedOn :: string

text \<open>\<open>ContactInformationState\<close>, the shape parsed by the contact-information step.\<close>

record ContactInformationState =
  phoneNumber :: "string option"
  phoneNumberAlt :: "string option"
  email :: "string option"
  confirmEmail :: "string option"
  mailingAddress :: string
  mailingApartment :: "string option"
  mailingCountry :: string
  mailingProvince :: "string option"
  mailingCity :: string
  mailingPostalCode :: "string option"
  copyMailingAddress :: bool
  homeAddress :: "string option"
  homeApartment :: "string option"
  homeCountry :: "string option"
  homeProvince :: "string option"
  homeCity :: "string option"
  homePostalCode :: "string option"

text \<open>
  \<open>CommunicationPreferencesState\<close>. Its members \<open>email\<close> and \<open>confirmEmail\<close> carry the
  prefix \<open>pref\<close> here, since a field name is a constant of the theory and the contact
  information already has both.
\<close>

record CommunicationPreferencesState =
  preferredLanguage :: string
  preferredMethod :: string
  prefEmail :: "string option"
  prefConfirmEmail :: "string option"

record ApplyState =
  stateId :: string
  editMode :: bool
  typeOfApplication :: "TypeOfApplication option"
  taxFiling2023 :: "bool option"
  dateOfBirth :: "string option"
  applicantInformation :: "Payload option"
  partnerInformation :: "Payload option"
  contactInformation :: "ContactInformationState option"
  communicationPreferences :: "CommunicationPreferencesState option"
  dentalInsurance :: "bool option"
  dentalBenefits :: "Payload option"
  children :: "Payload list option"
  submissionInfo :: "SubmissionInfo option"

text \<open>Route parameters (\<open>Params\<close>): the language and the application id of the URL.\<close>

record Params =
  lang :: string
  applyId :: string

text \<open>
  The part of a \<open>Request\<close> the handlers read: the path of its URL and its form data
  (\<open>formData.get(k)\<close> is \<open>null\<close> for a missing key, here \<open>None\<close>).
\<close>

record Request =
  pathname :: string
  formData :: "string \<rightharpoonup> string"

text \<open>
  The session (Remix \<open>Session\<close>) is a key/value store. The modelled code reads two
  kinds of entries: the anti-forgery token under \<open>csrfToken\<close>, and the wizard states,
  one per application id.
\<close>

record Session =
  csrfToken :: "string option"
  applyStates :: "string \<rightharpoonup> ApplyState"

text \<open>
  What a handler throws: a redirect response (\<open>throw redirect(url)\<close>), the missing
  wizard state, a plain error response (\<open>throw new Response(body, { status })\<close>), the
  \<open>ZodError\<close> of a failed \<open>parse\<close>, or the error of an external call.
\<close>

datatype Thrown =
  ThrownRedirect string
  | NotFoundError
  | ThrownResponse string nat
  | ZodError
  | ThrownError string

section \<open>String helpers\<close>

text \<open>\<open>String.prototype.endsWith\<close>.\<close>

definition endsWith :: "string \<Rightarrow> string \<Rightarrow> bool" where
  "endsWith s t = (length t \<le> length s \<and> drop (length s - length t) s = t)"

section \<open>Wizard state persistence\<close>

text \<open>
  The module \<open>~/route-helpers/apply-route-helpers.server\<close> with \<open>loadApplyState\<close>,
  \<open>saveApplyState\<close> and \<open>clearApplyState\<close> is imported by the sources but is not among
  them. Section 4.3 of the specification describes the three operations; each is
  modelled from its words.
\<close>

text \<open>
  Modelled from the spec: \<open>loadApplyState\<close>, of which the specification says that
  \<open>load(sessionId) -> WizardState\<close> fails with \<open>NotFoundError\<close> if no state exists. The
  state is looked up under the application id of the route parameters.
\<close>

definition loadApplyState :: "Params \<Rightarrow> Session \<Rightarrow> Thrown + ApplyState" where
  "loadApplyState params session =
     (case applyStates session (applyId params) of
        None \<Rightarrow> Inl NotFoundError
      | Some state \<Rightarrow> Inr state)"

text \<open>
  The partial state handed to \<open>saveApplyState\<close> (\<open>Partial<ApplyState>\<close> without the
  id): \<open>None\<close> is a key the object literal does not have, \<open>Some v\<close> a key with the
  value \<open>v\<close>. No caller in the sources passes a key with the value \<open>undefined\<close>.
\<close>

record PartialApplyState =
  p_editMode :: "bool option"
  p_typeOfApplication :: "TypeOfApplication option"
  p_taxFiling2023 :: "bool option"
  p_dateOfBirth :: "string option"
  p_applicantInformation :: "Payload option"
  p_partnerInformation :: "Payload option"
  p_contactInformation :: "ContactInformationState option"
  p_communicationPreferences :: "CommunicationPreferencesState option"
  p_dentalInsurance :: "bool option"
  p_dentalBenefits :: "Payload option"
  p_children :: "Payload list option"
  p_submissionInfo :: "SubmissionInfo option"

definition emptyPartial :: PartialApplyState where
  "emptyPartial =
     \<lparr>p_editMode = None, p_typeOfApplication = None, p_taxFiling2023 = None,
      p_dateOfBirth = None, p_applicantInformation = None, p_partnerInformation = None,
      p_contactInformation = None, p_communicationPreferences = None,
      p_dentalInsurance = None, p_dentalBenefits = None, p_children = None,
      p_submissionInfo = None\<rparr>"

text \<open>
  Modelled from the spec: the merge of \<open>saveApplyState\<close>, of which the specification
  says that it merges \<open>partial\<close> into existing \<open>fields\<close>, never removing previously-set
  fields, and that whole step payloads are replaced atomically while unrelated step
  payloads are untouched. A member of the merged state is the value of the partial
  state where it has the key, and the current value otherwise; the id is never part of
  a partial state.
\<close>

definition orElse :: "'a option \<Rightarrow> 'a option \<Rightarrow> 'a option" where
  "orElse new old = (case new of None \<Rightarrow> old | Some v \<Rightarrow> Some v)"

definition mergeState :: "ApplyState \<Rightarrow> PartialApplyState \<Rightarrow> ApplyState" where
  "mergeState current partial =
     \<lparr>stateId = stateId current,
      editMode = (case p_editMode partial of None \<Rightarrow> editMode current | Some v \<Rightarrow> v),
      typeOfApplication = orElse (p_typeOfApplication partial) (typeOfApplication current),
      taxFiling2023 = orElse (p_taxFiling2023 partial) (taxFiling2023 current),
      dateOfBirth = orElse (p_dateOfBirth partial) (dateOfBirth current),
      applicantInformation =
        orElse (p_applicantInformation partial) (applicantInformation current),
      partnerInformation = orElse (p_partnerInformation partial) (partnerInformation current),
      contactInformation = orElse (p_contactInformation partial) (contactInformation current),
      communicationPreferences =
        orElse (p_communicationPreferences partial) (communicationPreferences current),
      dentalInsurance = orElse (p_dentalInsurance partial) (dentalInsurance current),
      dentalBenefits = orElse (p_dentalBenefits partial) (dentalBenefits current),
      children = orElse (p_children partial) (children current),
      submissionInfo = orElse (p_submissionInfo partial) (submissionInfo current)\<rparr>"

text \<open>
  Modelled from the spec: \<open>saveApplyState\<close>. It merges into the existing state, so it
  fails as \<open>loadApplyState\<close> does when there is none, and stores the merged state in its
  place.
\<close>

definition saveApplyState :: "Params \<Rightarrow> Session \<Rightarrow> PartialApplyState \<Rightarrow> Thrown + Session" where
  "saveApplyState params session partial =
     (case loadApplyState params session of
        Inl e \<Rightarrow> Inl e
      | Inr currentState \<Rightarrow>
          Inr (session\<lparr>applyStates :=
                 (applyStates session)(applyId params \<mapsto> mergeState currentState partial)\<rparr>))"

text \<open>
  Modelled from the spec: \<open>clearApplyState\<close>, of which the specification says that
  \<open>clear(sessionId)\<close> removes all wizard state for the session: no state is stored under
  the application id afterwards.
\<close>

definition clearApplyState :: "Params \<Rightarrow> Session \<Rightarrow> Session" where
  "clearApplyState params session =
     session\<lparr>applyStates := (applyStates session)(applyId params := None)\<rparr>"

section \<open>Route helpers of the adult-child flow\<close>

text \<open>
  \<open>getPathById\<close> (\<open>~/utils/route-utils\<close>) turns a route id and the route parameters into
  a path. It is not among the sources and is a parameter of every function that calls it.
\<close>

type_synonym PathById = "string \<Rightarrow> Params \<Rightarrow> string"

text \<open>
  \<open>loadApplyAdultChildState\<close>. The second guard of the source only logs: its \<open>throw\<close> is
  commented out, so both of its branches return the state.
\<close>

definition loadApplyAdultChildState ::
  "PathById \<Rightarrow> Params \<Rightarrow> Request \<Rightarrow> Session \<Rightarrow> Thrown + ApplyState" where
  "loadApplyAdultChildState getPathById params request session =
     (case loadApplyState params session of
        Inl e \<Rightarrow> Inl e
      | Inr applyState \<Rightarrow>
          if typeOfApplication applyState \<noteq> Some AdultChild
          then Inl (ThrownRedirect
                 (getPathById ''$lang+/_public+/apply+/$id+/type-application'' params))
          else
            let confirmationRouteUrl =
                  getPathById ''$lang+/_public+/apply+/$id+/adult-child/confirmation'' params
            in
              if submissionInfo applyState \<noteq> None
                 \<and> \<not> endsWith (pathname request) confirmationRouteUrl
              then Inl (ThrownRedirect confirmationRouteUrl)
              else if submissionInfo applyState = None
                      \<and> endsWith (pathname request) confirmationRouteUrl
              then Inr applyState
              else Inr applyState)"

text \<open>
  \<open>validateApplyAdultChildStateForReview\<close> returns nothing or throws a redirect:
  \<open>None\<close> is the normal return, \<open>Some r\<close> the redirect thrown. The checks after the date
  of birth are commented out in the source and so are absent here.
\<close>

definition validateApplyAdultChildStateForReview ::
  "PathById \<Rightarrow> Params \<Rightarrow> ApplyState \<Rightarrow> Thrown option" where
  "validateApplyAdultChildStateForReview getPathById params state =
     (if typeOfApplication state = None
      then Some (ThrownRedirect
             (getPathById ''$lang+/_public+/apply+/$id+/type-application'' params))
      else if typeOfApplication state = Some Delegate
      then Some (ThrownRedirect
             (getPathById ''$lang+/_public+/apply+/$id+/application-delegate'' params))
      else if typeOfApplication state \<noteq> Some AdultChild
      then Some (ThrownRedirect
             (getPathById ''$lang+/_public+/apply+/$id+/type-application'' params))
      else if taxFiling2023 state = None
      then Some (ThrownRedirect
             (getPathById ''$lang+/_public+/apply+/$id+/adult-child/tax-filing'' params))
      else if taxFiling2023 state = Some False
      then Some (ThrownRedirect
             (getPathById ''$lang+/_public+/apply+/$id+/adult-child/file-taxes'' params))
      else if dateOfBirth state = None
      then Some (ThrownRedirect
             (getPathById ''$lang+/_public+/apply+/$id+/adult-child/date-of-birth'' params))
      else None)"


section \<open>Route handlers\<close>

text \<open>
  What a handler returns: a redirect response or a JSON body. What it did to the outside
  world is kept next to its result as a list of events: the CAPTCHA verifications and the
  submissions to the benefit application service, each with the answer it got.
\<close>

datatype 'j Returned = Redirect string | Json 'j

datatype 'r Event =
  VerifyHCaptcha string bool
  | SubmitApplication 'r "string + string"

record ('j, 'r) ActionResult =
  outcome :: "Thrown + 'j Returned"
  sessionAfter :: Session
  events :: "'r Event list"

text \<open>The settings read through \<open>getEnv()\<close>.\<close>

record Env =
  ENABLED_FEATURES :: "string list"
  COMMUNICATION_METHOD_EMAIL_ID :: string

text \<open>\<open>String(v)\<close> of a string, of \<open>undefined\<close> (\<open>session.get\<close>) and of \<open>null\<close> (\<open>formData.get\<close>).\<close>

definition stringOfUndefined :: "string option \<Rightarrow> string" where
  "stringOfUndefined v = (case v of None \<Rightarrow> ''undefined'' | Some s \<Rightarrow> s)"

definition stringOfNull :: "string option \<Rightarrow> string" where
  "stringOfNull v = (case v of None \<Rightarrow> ''null'' | Some s \<Rightarrow> s)"

text \<open>The token comparison every action starts with.\<close>

definition csrfTokenMatches :: "Session \<Rightarrow> Request \<Rightarrow> bool" where
  "csrfTokenMatches session request =
     (let expectedCsrfToken = stringOfUndefined (csrfToken session);
          submittedCsrfToken = stringOfNull (formData request ''_csrf'')
      in expectedCsrfToken = submittedCsrfToken)"

datatype FormAction = Back | Submit

text \<open>\<open>z.nativeEnum(FormAction).parse(v)\<close>; \<open>None\<close> is the \<open>ZodError\<close> it throws.\<close>

definition parseFormAction :: "string option \<Rightarrow> FormAction option" where
  "parseFormAction v =
     (if v = Some ''back'' then Some Back
      else if v = Some ''submit'' then Some Submit
      else None)"

text \<open>\<open>String(formData.get('h-captcha-response') ?? '')\<close>.\<close>

definition hCaptchaResponseOf :: "Request \<Rightarrow> string" where
  "hCaptchaResponseOf request =
     (case formData request ''h-captcha-response'' of None \<Rightarrow> [] | Some v \<Rightarrow> v)"

text \<open>
  Modelled from the spec: \<open>loadApplyAdultStateForReview\<close>, \<open>loadApplyChildState\<close> and
  \<open>loadApplyChildStateForReview\<close> (\<open>apply-adult-route-helpers.server\<close> and
  \<open>apply-child-route-helpers.server\<close>) are called by the route handlers but are not among
  the sources. As the Navigation Guard of section 4.2 and \<open>loadApplyAdultChildState\<close> do,
  such a loader reads the stored wizard state and returns it, unless a check on the state
  and the request throws a redirect. The checks are a parameter: \<open>None\<close> lets the state
  through, \<open>Some r\<close> throws \<open>r\<close>.
\<close>

type_synonym Guard = "Params \<Rightarrow> Request \<Rightarrow> ApplyState \<Rightarrow> Thrown option"

definition loadGuarded :: "Guard \<Rightarrow> Params \<Rightarrow> Request \<Rightarrow> Session \<Rightarrow> Thrown + ApplyState" where
  "loadGuarded guard params request session =
     (case loadApplyState params session of
        Inl e \<Rightarrow> Inl e
      | Inr state \<Rightarrow>
          (case guard params request state of
             Some r \<Rightarrow> Inl r
           | None \<Rightarrow> Inr state))"

text \<open>The checks of \<open>loadApplyAdultChildState\<close>, written as such a guard.\<close>

definition adultChildGuard :: "PathById \<Rightarrow> Guard" where
  "adultChildGuard getPathById params request applyState =
     (if typeOfApplication applyState \<noteq> Some AdultChild
      then Some (ThrownRedirect
             (getPathById ''$lang+/_public+/apply+/$id+/type-application'' params))
      else if submissionInfo applyState \<noteq> None
              \<and> \<not> endsWith (pathname request)
                    (getPathById ''$lang+/_public+/apply+/$id+/adult-child/confirmation'' params)
      then Some (ThrownRedirect
             (getPathById ''$lang+/_public+/apply+/$id+/adult-child/confirmation'' params))
      else None)"

subsection \<open>The review page of the adult flow\<close>

text \<open>
  \<open>action\<close> of \<open>routes/$lang/_public/apply/$id/adult/review-information.tsx\<close>. Its
  collaborators are parameters: the settings, \<open>getPathById\<close>, the checks of
  \<open>loadApplyAdultStateForReview\<close>, \<open>verifyHCaptchaResponse\<close>, the mapper
  \<open>toBenefitApplicationRequestFromApplyAdultState\<close>, \<open>submitApplication\<close> (\<open>Inl\<close> is the
  error it throws, \<open>Inr\<close> the confirmation code) and the clock
  (\<open>new UTCDate().toISOString()\<close>).
\<close>

definition reviewInformationAction ::
  "Env \<Rightarrow> PathById \<Rightarrow> Guard \<Rightarrow> (string \<Rightarrow> Request \<Rightarrow> bool) \<Rightarrow> (ApplyState \<Rightarrow> 'r)
   \<Rightarrow> ('r \<Rightarrow> string + string) \<Rightarrow> string
   \<Rightarrow> Params \<Rightarrow> Request \<Rightarrow> Session \<Rightarrow> ('j, 'r) ActionResult" where
  "reviewInformationAction env getPathById guard verifyHCaptchaResponse
       toBenefitApplicationRequest submitApplication now params request session =
     (case loadGuarded guard params request session of
        Inl e \<Rightarrow> \<lparr>outcome = Inl e, sessionAfter = session, events = []\<rparr>
      | Inr state \<Rightarrow>
          if \<not> csrfTokenMatches session request
          then \<lparr>outcome = Inl (ThrownResponse ''Invalid CSRF token'' 400),
                sessionAfter = session, events = []\<rparr>
          else
            (case parseFormAction (formData request ''_action'') of
               None \<Rightarrow> \<lparr>outcome = Inl ZodError, sessionAfter = session, events = []\<rparr>
             | Some Back \<Rightarrow>
                 (case saveApplyState params session (emptyPartial\<lparr>p_editMode := Some False\<rparr>) of
                    Inl e \<Rightarrow> \<lparr>outcome = Inl e, sessionAfter = session, events = []\<rparr>
                  | Inr saved \<Rightarrow>
                      \<lparr>outcome = Inr (Redirect (getPathById
                         ''$lang/_public/apply/$id/adult/federal-provincial-territorial-benefits''
                         params)),
                       sessionAfter = saved, events = []\<rparr>)
             | Some Submit \<Rightarrow>
                 let hCaptchaEnabled = (''hcaptcha'' \<in> set (ENABLED_FEATURES env));
                     hCaptchaResponse = hCaptchaResponseOf request;
                     verified = verifyHCaptchaResponse hCaptchaResponse request;
                     captchaEvents =
                       (if hCaptchaEnabled then [VerifyHCaptcha hCaptchaResponse verified]
                        else [])
                 in
                   if hCaptchaEnabled \<and> \<not> verified
                   then \<lparr>outcome = Inr (Redirect
                            (getPathById ''$lang/_public/unable-to-process-request'' params)),
                         sessionAfter = clearApplyState params session,
                         events = captchaEvents\<rparr>
                   else
                     let benefitApplicationRequest = toBenefitApplicationRequest state;
                         answer = submitApplication benefitApplicationRequest;
                         allEvents =
                           captchaEvents @ [SubmitApplication benefitApplicationRequest answer]
                     in
                       (case answer of
                          Inl err \<Rightarrow>
                            \<lparr>outcome = Inl (ThrownError err), sessionAfter = session,
                             events = allEvents\<rparr>
                        | Inr code \<Rightarrow>
                            (case saveApplyState params session
                                    (emptyPartial\<lparr>p_submissionInfo :=
                                       Some \<lparr>confirmationCode = code, submittedOn = now\<rparr>\<rparr>) of
                               Inl e \<Rightarrow>
                                 \<lparr>outcome = Inl e, sessionAfter = session, events = allEvents\<rparr>
                             | Inr saved \<Rightarrow>
                                 \<lparr>outcome = Inr (Redirect (getPathById
                                    ''$lang/_public/apply/$id/adult/confirmation'' params)),
                                  sessionAfter = saved, events = allEvents\<rparr>))))"

subsection \<open>The review page of the child flow\<close>

text \<open>
  \<open>action\<close> of \<open>routes/$lang/_public/apply/$id/child/review-child-information.tsx\<close>. Here
  the CAPTCHA is verified before the form action is parsed, and nothing is submitted to
  the benefit application service.
\<close>

definition reviewChildInformationAction ::
  "Env \<Rightarrow> PathById \<Rightarrow> Guard \<Rightarrow> (string \<Rightarrow> Request \<Rightarrow> bool)
   \<Rightarrow> Params \<Rightarrow> Request \<Rightarrow> Session \<Rightarrow> ('j, 'r) ActionResult" where
  "reviewChildInformationAction env getPathById guard verifyHCaptchaResponse
       params request session =
     (case loadGuarded guard params request session of
        Inl e \<Rightarrow> \<lparr>outcome = Inl e, sessionAfter = session, events = []\<rparr>
      | Inr state \<Rightarrow>
          if \<not> csrfTokenMatches session request
          then \<lparr>outcome = Inl (ThrownResponse ''Invalid CSRF token'' 400),
                sessionAfter = session, events = []\<rparr>
          else
            let hCaptchaEnabled = (''hcaptcha'' \<in> set (ENABLED_FEATURES env));
                hCaptchaResponse = hCaptchaResponseOf request;
                verified = verifyHCaptchaResponse hCaptchaResponse request;
                captchaEvents =
                  (if hCaptchaEnabled then [VerifyHCaptcha hCaptchaResponse verified] else [])
            in
              if hCaptchaEnabled \<and> \<not> verified
              then \<lparr>outcome = Inr (Redirect
                       (getPathById ''$lang/_public/unable-to-process-request'' params)),
                    sessionAfter = clearApplyState params session,
                    events = captchaEvents\<rparr>
              else
                (case parseFormAction (formData request ''_action'') of
                   None \<Rightarrow>
                     \<lparr>outcome = Inl ZodError, sessionAfter = session, events = captchaEvents\<rparr>
                 | Some Back \<Rightarrow>
                     (case saveApplyState params session
                             (emptyPartial\<lparr>p_editMode := Some False\<rparr>) of
                        Inl e \<Rightarrow>
                          \<lparr>outcome = Inl e, sessionAfter = session, events = captchaEvents\<rparr>
                      | Inr saved \<Rightarrow>
                          \<lparr>outcome = Inr (Redirect (getPathById
                             ''$lang/_public/apply/$id/child/communication-preference'' params)),
                           sessionAfter = saved, events = captchaEvents\<rparr>)
                 | Some Submit \<Rightarrow>
                     (case saveApplyState params session emptyPartial of
                        Inl e \<Rightarrow>
                          \<lparr>outcome = Inl e, sessionAfter = session, events = captchaEvents\<rparr>
                      | Inr saved \<Rightarrow>
                          \<lparr>outcome = Inr (Redirect (getPathById
                             ''$lang/_public/apply/$id/child/review-adult-information'' params)),
                           sessionAfter = saved, events = captchaEvents\<rparr>)))"

subsection \<open>The contact-information step of the child flow\<close>

text \<open>JavaScript truthiness of an optional string: defined and not empty.\<close>

definition truthy :: "string option \<Rightarrow> bool" where
  "truthy v = (case v of None \<Rightarrow> False | Some s \<Rightarrow> s \<noteq> [])"

text \<open>\<open>formData.get(k) ? String(formData.get(k)) : undefined\<close>.\<close>

definition formValue :: "Request \<Rightarrow> string \<Rightarrow> string option" where
  "formValue request k = (if truthy (formData request k) then formData request k else None)"

text \<open>\<open>String(formData.get(k) ?? '')\<close>.\<close>

definition formValueOrEmpty :: "Request \<Rightarrow> string \<Rightarrow> string" where
  "formValueOrEmpty request k = (case formData request k of None \<Rightarrow> [] | Some v \<Rightarrow> v)"

text \<open>The object \<open>data\<close> the action reads from the form.\<close>

definition contactInformationData :: "Request \<Rightarrow> ContactInformationState" where
  "contactInformationData request =
     \<lparr>phoneNumber = formValue request ''phoneNumber'',
      phoneNumberAlt = formValue request ''phoneNumberAlt'',
      email = formValue request ''email'',
      confirmEmail = formValue request ''confirmEmail'',
      mailingAddress = formValueOrEmpty request ''mailingAddress'',
      mailingApartment = formValue request ''mailingApartment'',
      mailingCountry = formValueOrEmpty request ''mailingCountry'',
      mailingProvince = formValue request ''mailingProvince'',
      mailingCity = formValueOrEmpty request ''mailingCity'',
      mailingPostalCode = formValue request ''mailingPostalCode'',
      copyMailingAddress = (formData request ''copyMailingAddress'' = Some ''copy''),
      homeAddress = formValue request ''homeAddress'',
      homeApartment = formValue request ''homeApartment'',
      homeCountry = formValue request ''homeCountry'',
      homeProvince = formValue request ''homeProvince'',
      homeCity = formValue request ''homeCity'',
      homePostalCode = formValue request ''homePostalCode''\<rparr>"

text \<open>\<open>updatedData\<close>: the home address is the mailing address when the box is ticked.\<close>

definition updatedDataOf :: "ContactInformationState \<Rightarrow> ContactInformationState" where
  "updatedDataOf parsedData =
     (if copyMailingAddress parsedData
      then parsedData\<lparr>homeAddress := Some (mailingAddress parsedData),
                      homeApartment := mailingApartment parsedData,
                      homeCountry := Some (mailingCountry parsedData),
                      homeProvince := mailingProvince parsedData,
                      homeCity := Some (mailingCity parsedData),
                      homePostalCode := mailingPostalCode parsedData\<rparr>
      else parsedData)"

text \<open>
  \<open>action\<close> of \<open>routes/$lang/_public/apply/$id/child/contact-information.tsx\<close>. The zod
  schema \<open>personalInformationSchema\<close> rests on libraries outside the repository (zod,
  libphonenumber-js, validator) and on helpers that are not among the sources; its
  \<open>safeParse\<close> is the parameter \<open>safeParse\<close>, whose \<open>Inl\<close> carries the flattened errors and
  whose \<open>Inr\<close> the parsed data. The checks of \<open>loadApplyChildState\<close> are the parameter
  \<open>guard\<close>.
\<close>

definition contactInformationAction ::
  "Env \<Rightarrow> PathById \<Rightarrow> Guard \<Rightarrow> (ContactInformationState \<Rightarrow> 'j + ContactInformationState)
   \<Rightarrow> Params \<Rightarrow> Request \<Rightarrow> Session \<Rightarrow> ('j, 'r) ActionResult" where
  "contactInformationAction env getPathById guard safeParse params request session =
     (case loadGuarded guard params request session of
        Inl e \<Rightarrow> \<lparr>outcome = Inl e, sessionAfter = session, events = []\<rparr>
      | Inr state \<Rightarrow>
          if \<not> csrfTokenMatches session request
          then \<lparr>outcome = Inl (ThrownResponse ''Invalid CSRF token'' 400),
                sessionAfter = session, events = []\<rparr>
          else
            (case safeParse (contactInformationData request) of
               Inl errors \<Rightarrow>
                 \<lparr>outcome = Inr (Json errors), sessionAfter = session, events = []\<rparr>
             | Inr parsedData \<Rightarrow>
                 let updatedData = updatedDataOf parsedData in
                   (case saveApplyState params session
                           (emptyPartial\<lparr>p_contactInformation := Some updatedData\<rparr>) of
                      Inl e \<Rightarrow> \<lparr>outcome = Inl e, sessionAfter = session, events = []\<rparr>
                    | Inr saved \<Rightarrow>
                        let synced =
                              (if truthy (email updatedData)
                                  \<and> map_option preferredMethod (communicationPreferences state)
                                      = Some (COMMUNICATION_METHOD_EMAIL_ID env)
                               then
                                 (case communicationPreferences state of
                                    None \<Rightarrow> Inr saved
                                  | Some preferences \<Rightarrow>
                                      saveApplyState params saved
                                        (emptyPartial\<lparr>p_communicationPreferences :=
                                           Some (preferences\<lparr>prefEmail := email updatedData\<rparr>)\<rparr>))
                               else Inr saved)
                        in
                          (case synced of
                             Inl e \<Rightarrow> \<lparr>outcome = Inl e, sessionAfter = saved, events = []\<rparr>
                           | Inr final \<Rightarrow>
                               if editMode state
                               then \<lparr>outcome = Inr (Redirect (getPathById
                                       ''$lang/_public/apply/$id/child/review-adult-information''
                                       params)),
                                     sessionAfter = final, events = []\<rparr>
                               else \<lparr>outcome = Inr (Redirect (getPathById
                                       ''$lang/_public/apply/$id/child/communication-preference''
                                       params)),
                                     sessionAfter = final, events = []\<rparr>))))"

section \<open>The mock of the confirmation-code API\<close>

text \<open>
  The handler of \<open>POST /v1/codes/verify\<close> in \<open>getSubscriptionApiMockHandlers\<close>. A row of
  the table \<open>db.subscriptionConfirmationCode\<close>; dates are milliseconds since the epoch, as
  the comparison of two \<open>Date\<close>s reads them. The members \<open>id\<close>, \<open>email\<close> and
  \<open>confirmationCode\<close> carry the prefix \<open>entity\<close>.
\<close>

record SubscriptionConfirmationCode =
  entityId :: string
  entityEmail :: string
  entityConfirmationCode :: string
  createdDate :: int
  expiryDate :: int

text \<open>A JSON value of the request body, as far as \<open>z.string()\<close> tells values apart.\<close>

datatype JsonValue = JsonString string | JsonOther

text \<open>\<open>validateSubscriptionSchema.safeParse\<close>: both members must be strings.\<close>

definition validateSubscriptionSchema :: "(string \<rightharpoonup> JsonValue) \<Rightarrow> (string \<times> string) option" where
  "validateSubscriptionSchema requestBody =
     (case (requestBody ''email'', requestBody ''confirmationCode'') of
        (Some (JsonString e), Some (JsonString c)) \<Rightarrow> Some (e, c)
      | _ \<Rightarrow> None)"

text \<open>\<open>Array.prototype.reduce\<close> without an initial value; it throws on an empty array.\<close>

fun reduce :: "('a \<Rightarrow> 'a \<Rightarrow> 'a) \<Rightarrow> 'a list \<Rightarrow> 'a option" where
  "reduce f [] = None"
| "reduce f (x # xs) = Some (foldl f x xs)"

definition laterCreated ::
  "SubscriptionConfirmationCode \<Rightarrow> SubscriptionConfirmationCode \<Rightarrow> SubscriptionConfirmationCode" where
  "laterCreated prev current = (if createdDate prev > createdDate current then prev else current)"

text \<open>
  The handler: the table, the time of the request (\<open>new Date()\<close>) and the body give the
  response, a \<open>confirmCodeStatus\<close> with its HTTP status, or the thrown response.
\<close>

definition verifyHandler ::
  "SubscriptionConfirmationCode list \<Rightarrow> int \<Rightarrow> (string \<rightharpoonup> JsonValue) \<Rightarrow> Thrown + (string \<times> nat)" where
  "verifyHandler table timeEntered requestBody =
     (case validateSubscriptionSchema requestBody of
        None \<Rightarrow> Inl (ThrownResponse [] 400)
      | Some (emailEntered, codeEntered) \<Rightarrow>
          let subscriptionConfirmationCodesEntities =
                filter (\<lambda>c. entityEmail c = emailEntered) table
          in
            if length subscriptionConfirmationCodesEntities = 0
            then Inr (''noCode'', 200)
            else
              (case reduce laterCreated subscriptionConfirmationCodesEntities of
                 None \<Rightarrow> Inl (ThrownError ''TypeError'')
               | Some latestConfirmCode \<Rightarrow>
                   if entityConfirmationCode latestConfirmCode = codeEntered
                      \<and> timeEntered < expiryDate latestConfirmCode
                   then Inr (''Valid'', 200)
                   else if entityConfirmationCode latestConfirmCode = codeEntered
                           \<and> timeEntered > expiryDate latestConfirmCode
                   then Inr (''expired'', 200)
                   else Inr (''mismatch'', 200)))"

section \<open>Vocabulary of the properties\<close>

subsection \<open>The keys of a wizard state\<close>

text \<open>
  The members of \<open>ApplyState\<close> that a partial state can carry, by name, and what it means
  for a partial state to have a key, for a state to hold the value a partial state gives
  to a key, for two states to agree on a key and for a state to have a key set.
\<close>

datatype StateKey =
  KEditMode | KTypeOfApplication | KTaxFiling2023 | KDateOfBirth | KApplicantInformation
  | KPartnerInformation | KContactInformation | KCommunicationPreferences
  | KDentalInsurance | KDentalBenefits | KChildren | KSubmissionInfo

definition allKeys :: "StateKey list" where
  "allKeys =
     [KEditMode, KTypeOfApplication, KTaxFiling2023, KDateOfBirth, KApplicantInformation,
      KPartnerInformation, KContactInformation, KCommunicationPreferences,
      KDentalInsurance, KDentalBenefits, KChildren, KSubmissionInfo]"

fun hasKey :: "PartialApplyState \<Rightarrow> StateKey \<Rightarrow> bool" where
  "hasKey p KEditMode = (p_editMode p \<noteq> None)"
| "hasKey p KTypeOfApplication = (p_typeOfApplication p \<noteq> None)"
| "hasKey p KTaxFiling2023 = (p_taxFiling2023 p \<noteq> None)"
| "hasKey p KDateOfBirth = (p_dateOfBirth p \<noteq> None)"
| "hasKey p KApplicantInformation = (p_applicantInformation p \<noteq> None)"
| "hasKey p KPartnerInformation = (p_partnerInformation p \<noteq> None)"
| "hasKey p KContactInformation = (p_contactInformation p \<noteq> None)"
| "hasKey p KCommunicationPreferences = (p_communicationPreferences p \<noteq> None)"
| "hasKey p KDentalInsurance = (p_dentalInsurance p \<noteq> None)"
| "hasKey p KDentalBenefits = (p_dentalBenefits p \<noteq> None)"
| "hasKey p KChildren = (p_children p \<noteq> None)"
| "hasKey p KSubmissionInfo = (p_submissionInfo p \<noteq> None)"

fun holdsIn :: "StateKey \<Rightarrow> PartialApplyState \<Rightarrow> ApplyState \<Rightarrow> bool" where
  "holdsIn KEditMode p s = (p_editMode p = Some (editMode s))"
| "holdsIn KTypeOfApplication p s = (p_typeOfApplication p = typeOfApplication s)"
| "holdsIn KTaxFiling2023 p s = (p_taxFiling2023 p = taxFiling2023 s)"
| "holdsIn KDateOfBirth p s = (p_dateOfBirth p = dateOfBirth s)"
| "holdsIn KApplicantInformation p s = (p_applicantInformation p = applicantInformation s)"
| "holdsIn KPartnerInformation p s = (p_partnerInformation p = partnerInformation s)"
| "holdsIn KContactInformation p s = (p_contactInformation p = contactInformation s)"
| "holdsIn KCommunicationPreferences p s =
     (p_communicationPreferences p = communicationPreferences s)"
| "holdsIn KDentalInsurance p s = (p_dentalInsurance p = dentalInsurance s)"
| "holdsIn KDentalBenefits p s = (p_dentalBenefits p = dentalBenefits s)"
| "holdsIn KChildren p s = (p_children p = children s)"
| "holdsIn KSubmissionInfo p s = (p_submissionInfo p = submissionInfo s)"

fun sameAt :: "StateKey \<Rightarrow> ApplyState \<Rightarrow> ApplyState \<Rightarrow> bool" where
  "sameAt KEditMode a b = (editMode a = editMode b)"
| "sameAt KTypeOfApplication a b = (typeOfApplication a = typeOfApplication b)"
| "sameAt KTaxFiling2023 a b = (taxFiling2023 a = taxFiling2023 b)"
| "sameAt KDateOfBirth a b = (dateOfBirth a = dateOfBirth b)"
| "sameAt KApplicantInformation a b = (applicantInformation a = applicantInformation b)"
| "sameAt KPartnerInformation a b = (partnerInformation a = partnerInformation b)"
| "sameAt KContactInformation a b = (contactInformation a = contactInformation b)"
| "sameAt KCommunicationPreferences a b =
     (communicationPreferences a = communicationPreferences b)"
| "sameAt KDentalInsurance a b = (dentalInsurance a = dentalInsurance b)"
| "sameAt KDentalBenefits a b = (dentalBenefits a = dentalBenefits b)"
| "sameAt KChildren a b = (children a = children b)"
| "sameAt KSubmissionInfo a b = (submissionInfo a = submissionInfo b)"

fun definedAt :: "StateKey \<Rightarrow> ApplyState \<Rightarrow> bool" where
  "definedAt KEditMode s = True"
| "definedAt KTypeOfApplication s = (typeOfApplication s \<noteq> None)"
| "definedAt KTaxFiling2023 s = (taxFiling2023 s \<noteq> None)"
| "definedAt KDateOfBirth s = (dateOfBirth s \<noteq> None)"
| "definedAt KApplicantInformation s = (applicantInformation s \<noteq> None)"
| "definedAt KPartnerInformation s = (partnerInformation s \<noteq> None)"
| "definedAt KContactInformation s = (contactInformation s \<noteq> None)"
| "definedAt KCommunicationPreferences s = (communicationPreferences s \<noteq> None)"
| "definedAt KDentalInsurance s = (dentalInsurance s \<noteq> None)"
| "definedAt KDentalBenefits s = (dentalBenefits s \<noteq> None)"
| "definedAt KChildren s = (children s \<noteq> None)"
| "definedAt KSubmissionInfo s = (submissionInfo s \<noteq> None)"

text \<open>Two partial states have no key in common.\<close>

definition disjointKeys :: "PartialApplyState \<Rightarrow> PartialApplyState \<Rightarrow> bool" where
  "disjointKeys p q = list_all (\<lambda>k. \<not> (hasKey p k \<and> hasKey q k)) allKeys"

text \<open>No two partial states of a sequence have a key in common.\<close>

fun pairwiseDisjoint :: "PartialApplyState list \<Rightarrow> bool" where
  "pairwiseDisjoint [] = True"
| "pairwiseDisjoint (p # ps) = (list_all (disjointKeys p) ps \<and> pairwiseDisjoint ps)"

text \<open>A sequence of step submissions: one \<open>saveApplyState\<close> after the other.\<close>

fun saveAll :: "Params \<Rightarrow> Session \<Rightarrow> PartialApplyState list \<Rightarrow> Thrown + Session" where
  "saveAll params session [] = Inr session"
| "saveAll params session (p # ps) =
     (case saveApplyState params session p of
        Inl e \<Rightarrow> Inl e
      | Inr saved \<Rightarrow> saveAll params saved ps)"

subsection \<open>Events of a review action\<close>

text \<open>The CAPTCHA verification a review action performs, if the feature is enabled.\<close>

definition captchaEventsOf ::
  "Env \<Rightarrow> (string \<Rightarrow> Request \<Rightarrow> bool) \<Rightarrow> Request \<Rightarrow> 'r Event list" where
  "captchaEventsOf env verify request =
     (if ''hcaptcha'' \<in> set (ENABLED_FEATURES env)
      then [VerifyHCaptcha (hCaptchaResponseOf request)
              (verify (hCaptchaResponseOf request) request)]
      else [])"

text \<open>The CAPTCHA feature is enabled and the verification of the response fails.\<close>

definition captchaFails :: "Env \<Rightarrow> (string \<Rightarrow> Request \<Rightarrow> bool) \<Rightarrow> Request \<Rightarrow> bool" where
  "captchaFails env verify request =
     (''hcaptcha'' \<in> set (ENABLED_FEATURES env)
      \<and> \<not> verify (hCaptchaResponseOf request) request)"

subsection \<open>The email of the contact-information step\<close>

text \<open>
  A submission of the contact-information step is successful when the state is loaded,
  the token matches and the form parses. The email sync applies to a successful
  submission whose data contain an email while the preferred method of the loaded
  communication preferences is the email method; the email submitted is the one of
  the parsed data.
\<close>

definition emailSyncApplies ::
  "Env \<Rightarrow> Guard \<Rightarrow> (ContactInformationState \<Rightarrow> 'j + ContactInformationState)
   \<Rightarrow> Params \<Rightarrow> Request \<Rightarrow> Session \<Rightarrow> bool" where
  "emailSyncApplies env guard safeParse params request session =
     (case loadGuarded guard params request session of
        Inl e \<Rightarrow> False
      | Inr state \<Rightarrow>
          csrfTokenMatches session request
          \<and> (case safeParse (contactInformationData request) of
                Inl errors \<Rightarrow> False
              | Inr parsedData \<Rightarrow>
                  truthy (email parsedData)
                  \<and> map_option preferredMethod (communicationPreferences state)
                      = Some (COMMUNICATION_METHOD_EMAIL_ID env)))"

definition submittedEmail ::
  "(ContactInformationState \<Rightarrow> 'j + ContactInformationState) \<Rightarrow> Request \<Rightarrow> string option" where
  "submittedEmail safeParse request =
     (case safeParse (contactInformationData request) of
        Inl errors \<Rightarrow> None
      | Inr parsedData \<Rightarrow> email parsedData)"

section \<open>Example values\<close>

text \<open>
  A concrete path function for evaluating the handlers on examples: it fills the
  \<open>$lang\<close> and \<open>$id\<close> segments of a route id from the parameters, drops the pathless
  \<open>_public\<close> segment and the \<open>+\<close> that ends a folder segment. Every property below is
  stated for an arbitrary \<open>getPathById\<close>; only the examples use this one.
\<close>

fun splitOn :: "char \<Rightarrow> string \<Rightarrow> string list" where
  "splitOn c [] = [[]]"
| "splitOn c (x # xs) =
     (if x = c then [] # splitOn c xs
      else (case splitOn c xs of
              [] \<Rightarrow> [[x]]
            | w # ws \<Rightarrow> (x # w) # ws))"

definition resolveSegment :: "Params \<Rightarrow> string \<Rightarrow> string option" where
  "resolveSegment params segment =
     (let s = (if segment \<noteq> [] \<and> last segment = CHR ''+'' then butlast segment else segment)
      in if s = ''$lang'' then Some (lang params)
         else if s = ''$id'' then Some (applyId params)
         else if s = ''_public'' then None
         else Some s)"

definition examplePathById :: PathById where
  "examplePathById routeId params =
     concat (map (\<lambda>s. CHR ''/'' # s)
       (List.map_filter (resolveSegment params) (splitOn CHR ''/'' routeId)))"

definition exampleParams :: Params where
  "exampleParams = \<lparr>lang = ''en'', applyId = ''a1''\<rparr>"

definition exampleEnv :: Env where
  "exampleEnv = \<lparr>ENABLED_FEATURES = [''hcaptcha''], COMMUNICATION_METHOD_EMAIL_ID = ''email''\<rparr>"

definition exampleContactInformation :: ContactInformationState where
  "exampleContactInformation =
     \<lparr>phoneNumber = None, phoneNumberAlt = None,
      email = Some ''old@example.com'', confirmEmail = Some ''old@example.com'',
      mailingAddress = ''1 Main St'', mailingApartment = None, mailingCountry = ''CAN'',
      mailingProvince = Some ''ON'', mailingCity = ''Ottawa'',
      mailingPostalCode = Some ''K1A 0B1'', copyMailingAddress = True,
      homeAddress = Some ''1 Main St'', homeApartment = None, homeCountry = Some ''CAN'',
      homeProvince = Some ''ON'', homeCity = Some ''Ottawa'',
      homePostalCode = Some ''K1A 0B1''\<rparr>"

definition examplePreferences :: CommunicationPreferencesState where
  "examplePreferences =
     \<lparr>preferredLanguage = ''en'', preferredMethod = ''email'',
      prefEmail = Some ''old@example.com'', prefConfirmEmail = Some ''old@example.com''\<rparr>"

text \<open>A complete state that has not been submitted, of a given application type.\<close>

definition completeState :: "TypeOfApplication \<Rightarrow> ApplyState" where
  "completeState t =
     \<lparr>stateId = ''a1'', editMode = True, typeOfApplication = Some t,
      taxFiling2023 = Some True, dateOfBirth = Some ''1980-01-01'',
      applicantInformation = Some [(''firstName'', ''Ada'')],
      partnerInformation = None,
      contactInformation = Some exampleContactInformation,
      communicationPreferences = Some examplePreferences,
      dentalInsurance = Some False, dentalBenefits = Some [],
      children = None, submissionInfo = None\<rparr>"

definition exampleSubmissionInfo :: SubmissionInfo where
  "exampleSubmissionInfo =
     \<lparr>confirmationCode = ''ABC123'', submittedOn = ''2024-05-01T12:00:00.000Z''\<rparr>"

text \<open>A session that holds one wizard state under the id of the example parameters.\<close>

definition sessionWith :: "ApplyState \<Rightarrow> Session" where
  "sessionWith state = \<lparr>csrfToken = Some ''token'', applyStates = [''a1'' \<mapsto> state]\<rparr>"

text \<open>A request for a path, with a form.\<close>

definition requestFor :: "string \<Rightarrow> (string \<times> string) list \<Rightarrow> Request" where
  "requestFor path form = \<lparr>pathname = path, formData = map_of form\<rparr>"

text \<open>Checks that let every stored state through.\<close>

definition letThrough :: Guard where
  "letThrough params request state = None"

text \<open>
  The form of the adult review page, submitted with the token of the session and a
  CAPTCHA response.
\<close>

definition submitRequest :: Request where
  "submitRequest =
     requestFor ''/en/apply/a1/adult/review-information''
       [(''_csrf'', ''token''), (''_action'', ''submit''), (''h-captcha-response'', ''response'')]"

text \<open>
  Runs of the submit action of the adult review page on a complete state of the adult
  flow, with a CAPTCHA verifier and a service that always give the same answer. The
  payload sent to the service is the id of the state.
\<close>

definition reviewRun :: "bool \<Rightarrow> string + string \<Rightarrow> Session \<Rightarrow> (unit, string) ActionResult" where
  "reviewRun verified answer session =
     reviewInformationAction exampleEnv examplePathById letThrough (\<lambda>response request. verified)
       stateId (\<lambda>payload. answer) ''2024-05-01T12:00:00.000Z'' exampleParams submitRequest
       session"

text \<open>The same for the review page of the child flow, on the same form.\<close>

definition childReviewRun :: "bool \<Rightarrow> Session \<Rightarrow> (unit, string) ActionResult" where
  "childReviewRun verified session =
     reviewChildInformationAction exampleEnv examplePathById letThrough
       (\<lambda>response request. verified) exampleParams submitRequest session"

text \<open>
  The form of the contact-information step of the child flow, with or without an email,
  a schema that accepts every form, and the run of the action on them.
\<close>

definition contactRequest :: "(string \<times> string) list \<Rightarrow> Request" where
  "contactRequest emailFields =
     requestFor ''/en/apply/a1/child/contact-information''
       ([(''_csrf'', ''token''), (''mailingAddress'', ''1 Main St''),
         (''mailingCountry'', ''CAN''), (''mailingProvince'', ''ON''),
         (''mailingCity'', ''Ottawa''), (''mailingPostalCode'', ''K1A 0B1''),
         (''copyMailingAddress'', ''copy'')] @ emailFields)"

definition acceptAll :: "ContactInformationState \<Rightarrow> unit + ContactInformationState" where
  "acceptAll data = Inr data"

definition contactRun :: "(string \<times> string) list \<Rightarrow> Session \<Rightarrow> (unit, string) ActionResult" where
  "contactRun emailFields session =
     contactInformationAction exampleEnv examplePathById letThrough acceptAll exampleParams
       (contactRequest emailFields) session"

text \<open>
  A table with one confirmation code, created at \<open>1000\<close> and expiring two days later, and
  the body of a verification request that enters this code.
\<close>

definition exampleCodes :: "SubscriptionConfirmationCode list" where
  "exampleCodes =
     [\<lparr>entityId = ''0000101'', entityEmail = ''user@example.com'',
       entityConfirmationCode = ''0101'', createdDate = 1000, expiryDate = 172801000\<rparr>]"

definition exampleVerifyBody :: "string \<rightharpoonup> JsonValue" where
  "exampleVerifyBody =
     [''email'' \<mapsto> JsonString ''user@example.com'',
      ''confirmationCode'' \<mapsto> JsonString ''0101'']"

text \<open>
  Two step submissions with no key in common, and a state of the child flow in which
  neither step has been submitted yet.
\<close>

definition contactPartial :: PartialApplyState where
  "contactPartial = emptyPartial\<lparr>p_contactInformation := Some exampleContactInformation\<rparr>"

definition preferencesPartial :: PartialApplyState where
  "preferencesPartial =
     emptyPartial\<lparr>p_communicationPreferences := Some examplePreferences,
                  p_editMode := Some True\<rparr>"

definition earlyState :: ApplyState where
  "earlyState =
     (completeState Child)\<lparr>editMode := False, contactInformation := None,
                           communicationPreferences := None\<rparr>"

section \<open>Facts about the example values\<close>

lemma examplePathById_routes:
  "examplePathById ''$lang+/_public+/apply+/$id+/type-application'' exampleParams
     = ''/en/apply/a1/type-application''"
  "examplePathById ''$lang+/_public+/apply+/$id+/adult-child/confirmation'' exampleParams
     = ''/en/apply/a1/adult-child/confirmation''"
  "examplePathById ''$lang/_public/apply/$id/adult/confirmation'' exampleParams
     = ''/en/apply/a1/adult/confirmation''"
  "examplePathById ''$lang/_public/unable-to-process-request'' exampleParams
     = ''/en/unable-to-process-request''"
  "examplePathById ''$lang/_public/apply/$id/child/communication-preference'' exampleParams
     = ''/en/apply/a1/child/communication-preference''"
  "examplePathById ''$lang/_public/apply/$id/child/review-adult-information'' exampleParams
     = ''/en/apply/a1/child/review-adult-information''"
  by (simp_all add: examplePathById_def exampleParams_def resolveSegment_def
      List.map_filter_def)

lemma loadApplyState_sessionWith [simp]:
  "loadApplyState exampleParams (sessionWith state) = Inr state"
  by (simp add: loadApplyState_def exampleParams_def sessionWith_def)

lemma stateId_completeState [simp]: "stateId (completeState t) = ''a1''"
  by (simp add: completeState_def)

section \<open>Loading and validating the state of the adult-child flow\<close>

text \<open>The loader has the shape of a guarded load, with the checks of its source.\<close>

lemma loadApplyAdultChildState_guarded:
  "loadApplyAdultChildState gp params request session
     = loadGuarded (adultChildGuard gp) params request session"
  by (simp add: loadApplyAdultChildState_def loadGuarded_def adultChildGuard_def Let_def
      split: sum.splits)

text \<open>
  C1, as amended. For every stored wizard state whose \<open>submissionInfo\<close> is set and every
  request whose path does not end with the path of the confirmation page,
  \<open>loadApplyAdultChildState\<close> throws a redirect and never returns the state: to the
  confirmation page when the state is one of the adult-child flow, and to the
  type-of-application page otherwise, since the check of the application type comes
  first.
\<close>

theorem loadApplyAdultChildState_submitted:
  assumes "loadApplyState params session = Inr state"
      and "submissionInfo state \<noteq> None"
      and "\<not> endsWith (pathname request)
               (gp ''$lang+/_public+/apply+/$id+/adult-child/confirmation'' params)"
  shows "loadApplyAdultChildState gp params request session =
           Inl (ThrownRedirect
             (if typeOfApplication state = Some AdultChild
              then gp ''$lang+/_public+/apply+/$id+/adult-child/confirmation'' params
              else gp ''$lang+/_public+/apply+/$id+/type-application'' params))"
  using assms by (simp add: loadApplyAdultChildState_def Let_def)

theorem loadApplyAdultChildState_submitted_witness:
  "loadApplyState exampleParams
       (sessionWith ((completeState AdultChild)\<lparr>submissionInfo := Some exampleSubmissionInfo\<rparr>))
     = Inr ((completeState AdultChild)\<lparr>submissionInfo := Some exampleSubmissionInfo\<rparr>)
   \<and> submissionInfo ((completeState AdultChild)\<lparr>submissionInfo := Some exampleSubmissionInfo\<rparr>)
       \<noteq> None
   \<and> \<not> endsWith (pathname (requestFor ''/en/apply/a1/adult-child/children'' []))
         (examplePathById ''$lang+/_public+/apply+/$id+/adult-child/confirmation''
            exampleParams)
   \<and> loadApplyAdultChildState examplePathById exampleParams
        (requestFor ''/en/apply/a1/adult-child/children'' [])
        (sessionWith ((completeState AdultChild)\<lparr>submissionInfo := Some exampleSubmissionInfo\<rparr>))
       = Inl (ThrownRedirect ''/en/apply/a1/adult-child/confirmation'')"
proof -
  let ?state = "(completeState AdultChild)\<lparr>submissionInfo := Some exampleSubmissionInfo\<rparr>"
  let ?request = "requestFor ''/en/apply/a1/adult-child/children'' []"
  have stored: "loadApplyState exampleParams (sessionWith ?state) = Inr ?state"
    by simp
  have submitted: "submissionInfo ?state \<noteq> None"
    by simp
  have elsewhere:
    "\<not> endsWith (pathname ?request)
        (examplePathById ''$lang+/_public+/apply+/$id+/adult-child/confirmation''
           exampleParams)"
    by (simp add: examplePathById_routes requestFor_def endsWith_def)
  have adultChild: "typeOfApplication ?state = Some AdultChild"
    by (simp add: completeState_def)
  from loadApplyAdultChildState_submitted
    [where gp = examplePathById, OF stored submitted elsewhere]
  show ?thesis
    using stored submitted elsewhere adultChild
    by (simp add: examplePathById_routes)
qed

text \<open>
  The claim as it is written fails for a submitted state of another flow: a submitted
  state of the adult flow asked for a page of the adult-child flow is sent to the
  type-of-application page, not to the confirmation page.
\<close>

theorem loadApplyAdultChildState_submitted_counterexample:
  "loadApplyState exampleParams
       (sessionWith ((completeState Adult)\<lparr>submissionInfo := Some exampleSubmissionInfo\<rparr>))
     = Inr ((completeState Adult)\<lparr>submissionInfo := Some exampleSubmissionInfo\<rparr>)
   \<and> submissionInfo ((completeState Adult)\<lparr>submissionInfo := Some exampleSubmissionInfo\<rparr>)
       \<noteq> None
   \<and> \<not> endsWith (pathname (requestFor ''/en/apply/a1/adult-child/children'' []))
         (examplePathById ''$lang+/_public+/apply+/$id+/adult-child/confirmation''
            exampleParams)
   \<and> loadApplyAdultChildState examplePathById exampleParams
        (requestFor ''/en/apply/a1/adult-child/children'' [])
        (sessionWith ((completeState Adult)\<lparr>submissionInfo := Some exampleSubmissionInfo\<rparr>))
       = Inl (ThrownRedirect ''/en/apply/a1/type-application'')
   \<and> ''/en/apply/a1/type-application''
       \<noteq> examplePathById ''$lang+/_public+/apply+/$id+/adult-child/confirmation''
            exampleParams"
  by (simp add: examplePathById_routes loadApplyAdultChildState_def completeState_def
      requestFor_def endsWith_def)

text \<open>
  Whatever the path of the request, a state of the adult-child flow that has not been
  submitted is returned: the redirect away from the confirmation page is commented out.
\<close>

lemma loadApplyAdultChildState_unsubmitted:
  assumes "loadApplyState params session = Inr state"
      and "typeOfApplication state = Some AdultChild"
      and "submissionInfo state = None"
  shows "loadApplyAdultChildState gp params request session = Inr state"
  using assms by (simp add: loadApplyAdultChildState_def Let_def)

text \<open>
  C4, on the failing input. The state has not been submitted and the request is for the
  confirmation page of the adult-child flow; \<open>loadApplyAdultChildState\<close> returns the state
  for rendering instead of redirecting to the terms-and-conditions page.
\<close>

theorem loadApplyAdultChildState_confirmation_before_submission:
  "submissionInfo (completeState AdultChild) = None
   \<and> endsWith (pathname (requestFor ''/en/apply/a1/adult-child/confirmation'' []))
       (examplePathById ''$lang+/_public+/apply+/$id+/adult-child/confirmation'' exampleParams)
   \<and> loadApplyAdultChildState examplePathById exampleParams
        (requestFor ''/en/apply/a1/adult-child/confirmation'' [])
        (sessionWith (completeState AdultChild))
       = Inr (completeState AdultChild)"
  by (simp add: examplePathById_routes loadApplyAdultChildState_def completeState_def
      requestFor_def endsWith_def)

text \<open>
  The validation passes every state of the adult-child flow whose taxes are filed and
  whose date of birth is set, whatever its later fields: the checks of the applicant
  information, the partner information and the steps after them are commented out.
\<close>

lemma validateApplyAdultChildStateForReview_passes:
  assumes "typeOfApplication state = Some AdultChild"
      and "taxFiling2023 state = Some True"
      and "dateOfBirth state \<noteq> None"
  shows "validateApplyAdultChildStateForReview gp params state = None"
  using assms by (simp add: validateApplyAdultChildStateForReview_def)

text \<open>
  C5, on the failing input. The state is one of the adult-child flow, its taxes are
  filed, its date of birth is set and its applicant information is unset;
  \<open>validateApplyAdultChildStateForReview\<close> returns without a redirect, where the claim
  has it redirect to the applicant-information step.
\<close>

theorem validateApplyAdultChildStateForReview_applicantInformation_unset:
  "typeOfApplication ((completeState AdultChild)\<lparr>applicantInformation := None\<rparr>)
     = Some AdultChild
   \<and> taxFiling2023 ((completeState AdultChild)\<lparr>applicantInformation := None\<rparr>) = Some True
   \<and> dateOfBirth ((completeState AdultChild)\<lparr>applicantInformation := None\<rparr>)
       = Some ''1980-01-01''
   \<and> applicantInformation ((completeState AdultChild)\<lparr>applicantInformation := None\<rparr>) = None
   \<and> validateApplyAdultChildStateForReview examplePathById exampleParams
        ((completeState AdultChild)\<lparr>applicantInformation := None\<rparr>)
       = None"
  by (simp add: validateApplyAdultChildStateForReview_def completeState_def)

section \<open>Saving and clearing the stored state\<close>

lemma mergeState_emptyPartial [simp]: "mergeState state emptyPartial = state"
  by (simp add: mergeState_def emptyPartial_def orElse_def)

lemma mergeState_submissionInfo [simp]:
  "mergeState state (emptyPartial\<lparr>p_submissionInfo := Some info\<rparr>)
     = state\<lparr>submissionInfo := Some info\<rparr>"
  by (simp add: mergeState_def emptyPartial_def orElse_def)

lemma mergeState_editMode [simp]:
  "mergeState state (emptyPartial\<lparr>p_editMode := Some b\<rparr>) = state\<lparr>editMode := b\<rparr>"
  by (simp add: mergeState_def emptyPartial_def orElse_def)

lemma mergeState_contactInformation [simp]:
  "mergeState state (emptyPartial\<lparr>p_contactInformation := Some c\<rparr>)
     = state\<lparr>contactInformation := Some c\<rparr>"
  by (simp add: mergeState_def emptyPartial_def orElse_def)

lemma mergeState_communicationPreferences [simp]:
  "mergeState state (emptyPartial\<lparr>p_communicationPreferences := Some c\<rparr>)
     = state\<lparr>communicationPreferences := Some c\<rparr>"
  by (simp add: mergeState_def emptyPartial_def orElse_def)

lemma saveApplyState_stored:
  assumes "loadApplyState params session = Inr state"
  shows "saveApplyState params session partial =
           Inr (session\<lparr>applyStates :=
                  (applyStates session)(applyId params \<mapsto> mergeState state partial)\<rparr>)"
  using assms by (simp add: saveApplyState_def)

lemma loadApplyState_stored [simp]:
  "loadApplyState params
     (session\<lparr>applyStates := (applyStates session)(applyId params \<mapsto> state)\<rparr>) = Inr state"
  by (simp add: loadApplyState_def)

lemma loadApplyState_cleared [simp]:
  "loadApplyState params (clearApplyState params session) = Inl NotFoundError"
  by (simp add: loadApplyState_def clearApplyState_def)

lemma loadGuarded_Inr:
  "loadGuarded guard params request session = Inr state
     \<longleftrightarrow> loadApplyState params session = Inr state \<and> guard params request state = None"
  by (auto simp add: loadGuarded_def split: sum.splits option.splits)

section \<open>The submit action of the adult review page\<close>

text \<open>The run of the action once the state is loaded, the token matches and the form asks to submit.\<close>

lemma reviewInformationAction_captcha_failed_run:
  assumes "loadGuarded guard params request session = Inr state"
      and "csrfTokenMatches session request"
      and "parseFormAction (formData request ''_action'') = Some Submit"
      and "captchaFails env verify request"
  shows "reviewInformationAction env gp guard verify toRequest submit now params request session
           = \<lparr>outcome = Inr (Redirect
                 (gp ''$lang/_public/unable-to-process-request'' params)),
              sessionAfter = clearApplyState params session,
              events = [VerifyHCaptcha (hCaptchaResponseOf request) False]\<rparr>"
  using assms by (simp add: reviewInformationAction_def Let_def captchaFails_def)

lemma reviewInformationAction_submit_run:
  assumes "loadGuarded guard params request session = Inr state"
      and "csrfTokenMatches session request"
      and "parseFormAction (formData request ''_action'') = Some Submit"
      and "\<not> captchaFails env verify request"
  shows "reviewInformationAction env gp guard verify toRequest submit now params request session
           = (case submit (toRequest state) of
                Inl err \<Rightarrow>
                  \<lparr>outcome = Inl (ThrownError err), sessionAfter = session,
                   events = captchaEventsOf env verify request
                     @ [SubmitApplication (toRequest state) (Inl err)]\<rparr>
              | Inr code \<Rightarrow>
                  \<lparr>outcome = Inr (Redirect
                     (gp ''$lang/_public/apply/$id/adult/confirmation'' params)),
                   sessionAfter = session\<lparr>applyStates := (applyStates session)(applyId params \<mapsto>
                     state\<lparr>submissionInfo :=
                       Some \<lparr>confirmationCode = code, submittedOn = now\<rparr>\<rparr>)\<rparr>,
                   events = captchaEventsOf env verify request
                     @ [SubmitApplication (toRequest state) (Inr code)]\<rparr>)"
proof -
  from assms(1) have stored: "loadApplyState params session = Inr state"
    by (simp add: loadGuarded_Inr)
  show ?thesis
    using assms
    by (simp add: reviewInformationAction_def Let_def captchaEventsOf_def captchaFails_def
        saveApplyState_stored [OF stored] split: sum.splits)
qed

text \<open>
  C2. Take any stored wizard state that the checks of the loader let through (a complete
  state that has not been submitted), a form with the token of the session that asks to
  submit, no failing CAPTCHA verification, and a benefit application service that
  answers the request made from the state with a confirmation code. Then the submit
  action of the adult review page calls the service once, saves \<open>submissionInfo\<close> with
  that code and the time of the run into the wizard state of the session, which leaves
  the rest of the state and of the session as they were, and returns a redirect to the
  confirmation page.
\<close>

theorem reviewInformationAction_submitted:
  fixes result :: "('j, 'r) ActionResult"
  assumes run: "result = reviewInformationAction env gp guard verify toRequest submit now
                  params request session"
      and stored: "loadApplyState params session = Inr state"
      and passes: "guard params request state = None"
      and csrf: "csrfTokenMatches session request"
      and submitAction: "parseFormAction (formData request ''_action'') = Some Submit"
      and captcha: "\<not> captchaFails env verify request"
      and answered: "submit (toRequest state) = Inr code"
  shows "outcome result
           = Inr (Redirect (gp ''$lang/_public/apply/$id/adult/confirmation'' params))
         \<and> saveApplyState params session
               (emptyPartial\<lparr>p_submissionInfo :=
                  Some \<lparr>confirmationCode = code, submittedOn = now\<rparr>\<rparr>)
             = Inr (sessionAfter result)
         \<and> sessionAfter result
             = session\<lparr>applyStates := (applyStates session)(applyId params \<mapsto>
                 state\<lparr>submissionInfo :=
                   Some \<lparr>confirmationCode = code, submittedOn = now\<rparr>\<rparr>)\<rparr>
         \<and> loadApplyState params (sessionAfter result)
             = Inr (state\<lparr>submissionInfo :=
                   Some \<lparr>confirmationCode = code, submittedOn = now\<rparr>\<rparr>)
         \<and> events result
             = captchaEventsOf env verify request
               @ [SubmitApplication (toRequest state) (Inr code)]"
proof -
  from stored passes have loaded: "loadGuarded guard params request session = Inr state"
    by (simp add: loadGuarded_Inr)
  show ?thesis
    unfolding run reviewInformationAction_submit_run
      [where guard = guard and verify = verify and env = env and gp = gp
         and toRequest = toRequest and submit = submit and now = now,
       OF loaded csrf submitAction captcha]
    using stored answered by (simp add: saveApplyState_stored [OF stored])
qed

text \<open>The example runs, evaluated.\<close>

lemma example_request_facts:
  "csrfTokenMatches (sessionWith state) submitRequest"
  "parseFormAction (formData submitRequest ''_action'') = Some Submit"
  "hCaptchaResponseOf submitRequest = ''response''"
  "captchaFails exampleEnv (\<lambda>response request. verified) submitRequest = (\<not> verified)"
  "loadGuarded letThrough exampleParams request (sessionWith state) = Inr state"
  "captchaEventsOf exampleEnv verify submitRequest
     = [VerifyHCaptcha ''response'' (verify ''response'' submitRequest)]"
  "(sessionWith state)\<lparr>applyStates :=
      (applyStates (sessionWith state))(applyId exampleParams \<mapsto> state')\<rparr> = sessionWith state'"
  "letThrough exampleParams request state = None"
  by (simp_all add: csrfTokenMatches_def stringOfUndefined_def stringOfNull_def
      sessionWith_def submitRequest_def requestFor_def parseFormAction_def
      hCaptchaResponseOf_def captchaFails_def captchaEventsOf_def exampleEnv_def
      loadGuarded_Inr letThrough_def loadApplyState_def exampleParams_def)

lemma reviewRun_success:
  "reviewRun True (Inr code) (sessionWith state)
     = \<lparr>outcome = Inr (Redirect ''/en/apply/a1/adult/confirmation''),
        sessionAfter = sessionWith (state\<lparr>submissionInfo :=
          Some \<lparr>confirmationCode = code, submittedOn = ''2024-05-01T12:00:00.000Z''\<rparr>\<rparr>),
        events = [VerifyHCaptcha ''response'' True, SubmitApplication (stateId state) (Inr code)]\<rparr>"
  unfolding reviewRun_def
  by (subst reviewInformationAction_submit_run [where state = state])
     (simp_all add: example_request_facts examplePathById_routes)

lemma reviewRun_failure:
  "reviewRun True (Inl err) (sessionWith state)
     = \<lparr>outcome = Inl (ThrownError err),
        sessionAfter = sessionWith state,
        events = [VerifyHCaptcha ''response'' True, SubmitApplication (stateId state) (Inl err)]\<rparr>"
  unfolding reviewRun_def
  by (subst reviewInformationAction_submit_run [where state = state])
     (simp_all add: example_request_facts)

lemma reviewRun_captcha_failed:
  "reviewRun False answer (sessionWith state)
     = \<lparr>outcome = Inr (Redirect ''/en/unable-to-process-request''),
        sessionAfter = clearApplyState exampleParams (sessionWith state),
        events = [VerifyHCaptcha ''response'' False]\<rparr>"
  unfolding reviewRun_def
  by (subst reviewInformationAction_captcha_failed_run [where state = state])
     (simp_all add: example_request_facts examplePathById_routes)

theorem reviewInformationAction_submitted_witness:
  "loadApplyState exampleParams (sessionWith (completeState Adult)) = Inr (completeState Adult)
   \<and> letThrough exampleParams submitRequest (completeState Adult) = None
   \<and> csrfTokenMatches (sessionWith (completeState Adult)) submitRequest
   \<and> parseFormAction (formData submitRequest ''_action'') = Some Submit
   \<and> \<not> captchaFails exampleEnv (\<lambda>response request. True) submitRequest
   \<and> outcome (reviewRun True (Inr ''ABC123'') (sessionWith (completeState Adult)))
       = Inr (Redirect ''/en/apply/a1/adult/confirmation'')
   \<and> loadApplyState exampleParams
        (sessionAfter (reviewRun True (Inr ''ABC123'') (sessionWith (completeState Adult))))
       = Inr ((completeState Adult)\<lparr>submissionInfo := Some exampleSubmissionInfo\<rparr>)
   \<and> events (reviewRun True (Inr ''ABC123'') (sessionWith (completeState Adult)))
       = [VerifyHCaptcha ''response'' True, SubmitApplication ''a1'' (Inr ''ABC123'')]"
proof -
  let ?session = "sessionWith (completeState Adult)"
  have stored: "loadApplyState exampleParams ?session = Inr (completeState Adult)"
    by simp
  have passes: "letThrough exampleParams submitRequest (completeState Adult) = None"
    by (simp add: example_request_facts)
  have csrf: "csrfTokenMatches ?session submitRequest"
    by (simp add: example_request_facts)
  have submitAction: "parseFormAction (formData submitRequest ''_action'') = Some Submit"
    by (simp add: example_request_facts)
  have captcha: "\<not> captchaFails exampleEnv (\<lambda>response request. True) submitRequest"
    by (simp add: example_request_facts)
  have answered: "(Inr ''ABC123'' :: string + string) = Inr ''ABC123''"
    by simp
  let ?run = "reviewRun True (Inr ''ABC123'') ?session"
  note submitted = reviewInformationAction_submitted
    [where result = ?run and env = exampleEnv and gp = examplePathById
       and guard = letThrough and verify = "\<lambda>response request. True"
       and toRequest = stateId and submit = "\<lambda>payload. Inr ''ABC123''"
       and now = "''2024-05-01T12:00:00.000Z''" and params = exampleParams
       and request = submitRequest and session = ?session
       and state = "completeState Adult" and code = "''ABC123''",
     OF reviewRun_def stored passes csrf submitAction captcha answered]
  from submitted
  have redirected: "outcome ?run
      = Inr (Redirect (examplePathById ''$lang/_public/apply/$id/adult/confirmation''
               exampleParams))"
    by (elim conjE)
  from submitted
  have saved: "loadApplyState exampleParams (sessionAfter ?run)
      = Inr ((completeState Adult)\<lparr>submissionInfo :=
          Some \<lparr>confirmationCode = ''ABC123'',
                submittedOn = ''2024-05-01T12:00:00.000Z''\<rparr>\<rparr>)"
    by (elim conjE)
  from submitted
  have called: "events ?run
      = captchaEventsOf exampleEnv (\<lambda>response request. True) submitRequest
        @ [SubmitApplication (stateId (completeState Adult)) (Inr ''ABC123'')]"
    by (elim conjE)
  have "outcome ?run = Inr (Redirect ''/en/apply/a1/adult/confirmation'')"
    using redirected by (simp only: examplePathById_routes)
  moreover
  have "loadApplyState exampleParams (sessionAfter ?run)
          = Inr ((completeState Adult)\<lparr>submissionInfo := Some exampleSubmissionInfo\<rparr>)"
    using saved by (simp only: exampleSubmissionInfo_def)
  moreover
  have "events ?run
          = [VerifyHCaptcha ''response'' True, SubmitApplication ''a1'' (Inr ''ABC123'')]"
    using called by (simp add: example_request_facts)
  ultimately show ?thesis
    using stored passes csrf submitAction captcha by blast
qed

text \<open>
  C3. Take any stored wizard state that the checks of the loader let through, a form
  with the token of the session that asks to submit, no failing CAPTCHA verification,
  and a benefit application service whose call for the request made from the state
  fails. Then the submit action of the adult review page throws the error of the service
  to its caller and leaves the session, and with it the wizard state, exactly as it
  was: \<open>submissionInfo\<close> is not saved. The failure can be retried: the same request on
  the session the failed run left, with a service that now answers, stores
  \<open>submissionInfo\<close> and redirects to the confirmation page.
\<close>

theorem reviewInformationAction_service_failure:
  fixes result :: "('j, 'r) ActionResult"
  assumes run: "result = reviewInformationAction env gp guard verify toRequest submit now
                  params request session"
      and stored: "loadApplyState params session = Inr state"
      and passes: "guard params request state = None"
      and csrf: "csrfTokenMatches session request"
      and submitAction: "parseFormAction (formData request ''_action'') = Some Submit"
      and captcha: "\<not> captchaFails env verify request"
      and failed: "submit (toRequest state) = Inl err"
  shows "outcome result = Inl (ThrownError err)
         \<and> sessionAfter result = session
         \<and> loadApplyState params (sessionAfter result) = Inr state
         \<and> events result
             = captchaEventsOf env verify request
               @ [SubmitApplication (toRequest state) (Inl err)]
         \<and> (\<forall>submit' now' code. submit' (toRequest state) = Inr code \<longrightarrow>
               outcome (reviewInformationAction env gp guard verify toRequest submit' now'
                          params request (sessionAfter result) :: ('j, 'r) ActionResult)
                 = Inr (Redirect (gp ''$lang/_public/apply/$id/adult/confirmation'' params))
               \<and> loadApplyState params
                   (sessionAfter (reviewInformationAction env gp guard verify toRequest
                      submit' now' params request (sessionAfter result)
                      :: ('j, 'r) ActionResult))
                 = Inr (state\<lparr>submissionInfo :=
                     Some \<lparr>confirmationCode = code, submittedOn = now'\<rparr>\<rparr>))"
proof -
  from stored passes have loaded: "loadGuarded guard params request session = Inr state"
    by (simp add: loadGuarded_Inr)
  have first: "outcome result = Inl (ThrownError err) \<and> sessionAfter result = session
               \<and> events result
                   = captchaEventsOf env verify request
                     @ [SubmitApplication (toRequest state) (Inl err)]"
    unfolding run reviewInformationAction_submit_run
      [where guard = guard and verify = verify and env = env and gp = gp
         and toRequest = toRequest and submit = submit and now = now,
       OF loaded csrf submitAction captcha]
    using failed by simp
  have retry:
    "outcome (reviewInformationAction env gp guard verify toRequest submit' now'
                params request session :: ('j, 'r) ActionResult)
       = Inr (Redirect (gp ''$lang/_public/apply/$id/adult/confirmation'' params))
     \<and> loadApplyState params
         (sessionAfter (reviewInformationAction env gp guard verify toRequest
            submit' now' params request session :: ('j, 'r) ActionResult))
       = Inr (state\<lparr>submissionInfo :=
           Some \<lparr>confirmationCode = code, submittedOn = now'\<rparr>\<rparr>)"
    if "submit' (toRequest state) = Inr code" for submit' now' code
    unfolding reviewInformationAction_submit_run
      [where guard = guard and verify = verify and env = env and gp = gp
         and toRequest = toRequest and submit = submit' and now = now',
       OF loaded csrf submitAction captcha]
    using that by simp
  from first stored retry show ?thesis
    by auto
qed

theorem reviewInformationAction_service_failure_witness:
  "loadApplyState exampleParams (sessionWith (completeState Adult)) = Inr (completeState Adult)
   \<and> letThrough exampleParams submitRequest (completeState Adult) = None
   \<and> csrfTokenMatches (sessionWith (completeState Adult)) submitRequest
   \<and> parseFormAction (formData submitRequest ''_action'') = Some Submit
   \<and> \<not> captchaFails exampleEnv (\<lambda>response request. True) submitRequest
   \<and> outcome (reviewRun True (Inl ''ECONNRESET'') (sessionWith (completeState Adult)))
       = Inl (ThrownError ''ECONNRESET'')
   \<and> sessionAfter (reviewRun True (Inl ''ECONNRESET'') (sessionWith (completeState Adult)))
       = sessionWith (completeState Adult)
   \<and> events (reviewRun True (Inl ''ECONNRESET'') (sessionWith (completeState Adult)))
       = [VerifyHCaptcha ''response'' True, SubmitApplication ''a1'' (Inl ''ECONNRESET'')]
   \<and> outcome (reviewRun True (Inr ''ABC123'')
        (sessionAfter (reviewRun True (Inl ''ECONNRESET'') (sessionWith (completeState Adult)))))
       = Inr (Redirect ''/en/apply/a1/adult/confirmation'')"
proof -
  let ?session = "sessionWith (completeState Adult)"
  let ?run = "reviewRun True (Inl ''ECONNRESET'') ?session"
  have stored: "loadApplyState exampleParams ?session = Inr (completeState Adult)"
    by simp
  have passes: "letThrough exampleParams submitRequest (completeState Adult) = None"
    by (simp add: example_request_facts)
  have csrf: "csrfTokenMatches ?session submitRequest"
    by (simp add: example_request_facts)
  have submitAction: "parseFormAction (formData submitRequest ''_action'') = Some Submit"
    by (simp add: example_request_facts)
  have captcha: "\<not> captchaFails exampleEnv (\<lambda>response request. True) submitRequest"
    by (simp add: example_request_facts)
  have failed: "(Inl ''ECONNRESET'' :: string + string) = Inl ''ECONNRESET''"
    by simp
  note failure = reviewInformationAction_service_failure
    [where result = ?run and env = exampleEnv and gp = examplePathById
       and guard = letThrough and verify = "\<lambda>response request. True"
       and toRequest = stateId and submit = "\<lambda>payload. Inl ''ECONNRESET''"
       and now = "''2024-05-01T12:00:00.000Z''" and params = exampleParams
       and request = submitRequest and session = ?session
       and state = "completeState Adult" and err = "''ECONNRESET''",
     OF reviewRun_def stored passes csrf submitAction captcha failed]
  from failure
  have thrown: "outcome ?run = Inl (ThrownError ''ECONNRESET'')"
    by (elim conjE)
  from failure
  have unchanged: "sessionAfter ?run = ?session"
    by (elim conjE)
  from failure
  have called: "events ?run
      = captchaEventsOf exampleEnv (\<lambda>response request. True) submitRequest
        @ [SubmitApplication (stateId (completeState Adult)) (Inl ''ECONNRESET'')]"
    by (elim conjE)
  from failure
  have retry: "\<forall>submit' now' code. submit' (stateId (completeState Adult)) = Inr code \<longrightarrow>
      outcome (reviewInformationAction exampleEnv examplePathById letThrough
                 (\<lambda>response request. True) stateId submit' now' exampleParams submitRequest
                 (sessionAfter ?run) :: (unit, string) ActionResult)
        = Inr (Redirect (examplePathById ''$lang/_public/apply/$id/adult/confirmation''
                 exampleParams))
      \<and> loadApplyState exampleParams
          (sessionAfter (reviewInformationAction exampleEnv examplePathById letThrough
             (\<lambda>response request. True) stateId submit' now' exampleParams submitRequest
             (sessionAfter ?run) :: (unit, string) ActionResult))
        = Inr ((completeState Adult)\<lparr>submissionInfo :=
            Some \<lparr>confirmationCode = code, submittedOn = now'\<rparr>\<rparr>)"
    by (elim conjE)
  have again: "outcome (reviewRun True (Inr ''ABC123'') (sessionAfter ?run))
          = Inr (Redirect ''/en/apply/a1/adult/confirmation'')"
    unfolding reviewRun_def [of True "Inr ''ABC123''"]
    using retry [rule_format, of "\<lambda>payload. Inr ''ABC123''" "''ABC123''"
                   "''2024-05-01T12:00:00.000Z''"]
    by (simp add: examplePathById_routes)
  have "events ?run
          = [VerifyHCaptcha ''response'' True, SubmitApplication ''a1'' (Inl ''ECONNRESET'')]"
    using called by (simp add: example_request_facts)
  with stored passes csrf submitAction captcha thrown unchanged again show ?thesis
    by blast
qed

section \<open>A failed CAPTCHA verification on the review pages\<close>

lemma reviewChildInformationAction_captcha_failed_run:
  assumes "loadGuarded guard params request session = Inr state"
      and "csrfTokenMatches session request"
      and "captchaFails env verify request"
  shows "reviewChildInformationAction env gp guard verify params request session
           = \<lparr>outcome = Inr (Redirect
                 (gp ''$lang/_public/unable-to-process-request'' params)),
              sessionAfter = clearApplyState params session,
              events = [VerifyHCaptcha (hCaptchaResponseOf request) False]\<rparr>"
  using assms by (simp add: reviewChildInformationAction_def Let_def captchaFails_def)

text \<open>
  C8. Take the submit action of a review page, the adult one with a form that asks to
  submit, or the child one, on any stored wizard state that the checks of the loader
  let through and a form with the token of the session. If the CAPTCHA feature is
  enabled and the verification of the submitted response fails, the action clears the
  wizard state of the session and returns a redirect to the unable-to-process page, and
  the failed verification is the only call it makes: the benefit application service is
  not called.
\<close>

theorem review_actions_captcha_failure:
  fixes result :: "('j, 'r) ActionResult"
  assumes action:
        "result = reviewInformationAction env gp guard verify toRequest submit now
                    params request session
           \<and> parseFormAction (formData request ''_action'') = Some Submit
         \<or> result = reviewChildInformationAction env gp guard verify params request session"
      and stored: "loadApplyState params session = Inr state"
      and passes: "guard params request state = None"
      and csrf: "csrfTokenMatches session request"
      and enabled: "''hcaptcha'' \<in> set (ENABLED_FEATURES env)"
      and failed: "\<not> verify (hCaptchaResponseOf request) request"
  shows "outcome result
           = Inr (Redirect (gp ''$lang/_public/unable-to-process-request'' params))
         \<and> sessionAfter result = clearApplyState params session
         \<and> loadApplyState params (sessionAfter result) = Inl NotFoundError
         \<and> events result = [VerifyHCaptcha (hCaptchaResponseOf request) False]
         \<and> (\<forall>payload answer. SubmitApplication payload answer \<notin> set (events result))"
proof -
  from stored passes have loaded: "loadGuarded guard params request session = Inr state"
    by (simp add: loadGuarded_Inr)
  from enabled failed have fails: "captchaFails env verify request"
    by (simp add: captchaFails_def)
  have "result = \<lparr>outcome = Inr (Redirect
                 (gp ''$lang/_public/unable-to-process-request'' params)),
              sessionAfter = clearApplyState params session,
              events = [VerifyHCaptcha (hCaptchaResponseOf request) False]\<rparr>"
    using action
  proof
    assume adult: "result = reviewInformationAction env gp guard verify toRequest submit now
                     params request session
                   \<and> parseFormAction (formData request ''_action'') = Some Submit"
    then have submitAction: "parseFormAction (formData request ''_action'') = Some Submit"
      by simp
    from adult show ?thesis
      by (simp add: reviewInformationAction_captcha_failed_run
          [where guard = guard and verify = verify and env = env and gp = gp
             and toRequest = toRequest and submit = submit and now = now,
           OF loaded csrf submitAction fails])
  next
    assume child: "result = reviewChildInformationAction env gp guard verify
                     params request session"
    then show ?thesis
      by (simp add: reviewChildInformationAction_captcha_failed_run
          [where guard = guard and verify = verify and env = env and gp = gp,
           OF loaded csrf fails])
  qed
  then show ?thesis
    by simp
qed

lemma childReviewRun_captcha_failed:
  "childReviewRun False (sessionWith state)
     = \<lparr>outcome = Inr (Redirect ''/en/unable-to-process-request''),
        sessionAfter = clearApplyState exampleParams (sessionWith state),
        events = [VerifyHCaptcha ''response'' False]\<rparr>"
  unfolding childReviewRun_def
  by (subst reviewChildInformationAction_captcha_failed_run [where state = state])
     (simp_all add: example_request_facts examplePathById_routes)

theorem review_actions_captcha_failure_witness:
  "loadApplyState exampleParams (sessionWith (completeState Adult)) = Inr (completeState Adult)
   \<and> loadApplyState exampleParams (sessionWith (completeState Child)) = Inr (completeState Child)
   \<and> letThrough exampleParams submitRequest (completeState Adult) = None
   \<and> csrfTokenMatches (sessionWith (completeState Adult)) submitRequest
   \<and> csrfTokenMatches (sessionWith (completeState Child)) submitRequest
   \<and> parseFormAction (formData submitRequest ''_action'') = Some Submit
   \<and> ''hcaptcha'' \<in> set (ENABLED_FEATURES exampleEnv)
   \<and> \<not> (\<lambda>response request. False) (hCaptchaResponseOf submitRequest) submitRequest
   \<and> outcome (reviewRun False (Inr ''ABC123'') (sessionWith (completeState Adult)))
       = Inr (Redirect ''/en/unable-to-process-request'')
   \<and> loadApplyState exampleParams
        (sessionAfter (reviewRun False (Inr ''ABC123'') (sessionWith (completeState Adult))))
       = Inl NotFoundError
   \<and> events (reviewRun False (Inr ''ABC123'') (sessionWith (completeState Adult)))
       = [VerifyHCaptcha ''response'' False]
   \<and> outcome (childReviewRun False (sessionWith (completeState Child)))
       = Inr (Redirect ''/en/unable-to-process-request'')
   \<and> loadApplyState exampleParams
        (sessionAfter (childReviewRun False (sessionWith (completeState Child))))
       = Inl NotFoundError
   \<and> events (childReviewRun False (sessionWith (completeState Child)))
       = [VerifyHCaptcha ''response'' False]"
proof -
  let ?adult = "reviewRun False (Inr ''ABC123'') (sessionWith (completeState Adult))"
  let ?child = "childReviewRun False (sessionWith (completeState Child))"
  have stored: "loadApplyState exampleParams (sessionWith state) = Inr state" for state
    by simp
  have passes: "letThrough exampleParams submitRequest state = None" for state
    by (simp add: example_request_facts)
  have csrf: "csrfTokenMatches (sessionWith state) submitRequest" for state
    by (simp add: example_request_facts)
  have submitAction: "parseFormAction (formData submitRequest ''_action'') = Some Submit"
    by (simp add: example_request_facts)
  have enabled: "''hcaptcha'' \<in> set (ENABLED_FEATURES exampleEnv)"
    by (simp add: exampleEnv_def)
  have failed: "\<not> False"
    by simp
  note adult = review_actions_captcha_failure
    [where result = ?adult and env = exampleEnv and gp = examplePathById
       and guard = letThrough and verify = "\<lambda>response request. False"
       and toRequest = stateId and submit = "\<lambda>payload. Inr ''ABC123''"
       and now = "''2024-05-01T12:00:00.000Z''" and params = exampleParams
       and request = submitRequest and session = "sessionWith (completeState Adult)"
       and state = "completeState Adult",
     OF disjI1 [OF conjI [OF reviewRun_def submitAction]]
       stored passes csrf enabled failed]
  note child = review_actions_captcha_failure
    [where result = ?child and env = exampleEnv and gp = examplePathById
       and guard = letThrough and verify = "\<lambda>response request. False"
       and toRequest = stateId and submit = "\<lambda>payload. Inr ''ABC123''"
       and now = "''2024-05-01T12:00:00.000Z''" and params = exampleParams
       and request = submitRequest and session = "sessionWith (completeState Child)"
       and state = "completeState Child",
     OF disjI2 [OF childReviewRun_def] stored passes csrf enabled failed]
  from adult
  have "outcome ?adult
          = Inr (Redirect (examplePathById ''$lang/_public/unable-to-process-request''
                   exampleParams))"
    by (elim conjE)
  then have adultRedirected: "outcome ?adult = Inr (Redirect ''/en/unable-to-process-request'')"
    by (simp only: examplePathById_routes)
  from adult
  have adultCleared: "loadApplyState exampleParams (sessionAfter ?adult) = Inl NotFoundError"
    by (elim conjE)
  from adult
  have "events ?adult = [VerifyHCaptcha (hCaptchaResponseOf submitRequest) False]"
    by (elim conjE)
  then have adultEvents: "events ?adult = [VerifyHCaptcha ''response'' False]"
    by (simp only: example_request_facts)
  from child
  have "outcome ?child
          = Inr (Redirect (examplePathById ''$lang/_public/unable-to-process-request''
                   exampleParams))"
    by (elim conjE)
  then have childRedirected: "outcome ?child = Inr (Redirect ''/en/unable-to-process-request'')"
    by (simp only: examplePathById_routes)
  from child
  have childCleared: "loadApplyState exampleParams (sessionAfter ?child) = Inl NotFoundError"
    by (elim conjE)
  from child
  have "events ?child = [VerifyHCaptcha (hCaptchaResponseOf submitRequest) False]"
    by (elim conjE)
  then have childEvents: "events ?child = [VerifyHCaptcha ''response'' False]"
    by (simp only: example_request_facts)
  have notVerified:
    "\<not> (\<lambda>response request. False) (hCaptchaResponseOf submitRequest) submitRequest"
    by simp
  from stored [of "completeState Adult"] stored [of "completeState Child"]
    passes [of "completeState Adult"] csrf [of "completeState Adult"]
    csrf [of "completeState Child"] submitAction enabled notVerified
    adultRedirected adultCleared adultEvents childRedirected childCleared childEvents
  show ?thesis
    by (intro conjI)
qed

section \<open>The contact-information step and the communication preferences\<close>

lemma email_updatedDataOf [simp]: "email (updatedDataOf parsedData) = email parsedData"
  by (simp add: updatedDataOf_def)

text \<open>The run of a successful submission.\<close>

lemma contactInformationAction_success_run:
  assumes loaded: "loadGuarded guard params request session = Inr state"
      and csrf: "csrfTokenMatches session request"
      and parsed: "safeParse (contactInformationData request) = Inr parsedData"
  shows "contactInformationAction env gp guard safeParse params request session
           = \<lparr>outcome = Inr (Redirect
                 (if editMode state
                  then gp ''$lang/_public/apply/$id/child/review-adult-information'' params
                  else gp ''$lang/_public/apply/$id/child/communication-preference'' params)),
              sessionAfter = session\<lparr>applyStates := (applyStates session)(applyId params \<mapsto>
                (case communicationPreferences state of
                   None \<Rightarrow> state\<lparr>contactInformation := Some (updatedDataOf parsedData)\<rparr>
                 | Some preferences \<Rightarrow>
                     if truthy (email parsedData)
                        \<and> preferredMethod preferences = COMMUNICATION_METHOD_EMAIL_ID env
                     then state\<lparr>contactInformation := Some (updatedDataOf parsedData),
                                communicationPreferences :=
                                  Some (preferences\<lparr>prefEmail := email parsedData\<rparr>)\<rparr>
                     else state\<lparr>contactInformation := Some (updatedDataOf parsedData)\<rparr>))\<rparr>,
              events = []\<rparr>"
proof -
  from loaded have stored: "loadApplyState params session = Inr state"
    by (simp add: loadGuarded_Inr)
  let ?saved = "session\<lparr>applyStates := (applyStates session)(applyId params \<mapsto>
                  state\<lparr>contactInformation := Some (updatedDataOf parsedData)\<rparr>)\<rparr>"
  have first: "saveApplyState params session
                 (emptyPartial\<lparr>p_contactInformation := Some (updatedDataOf parsedData)\<rparr>)
                 = Inr ?saved"
    by (simp add: saveApplyState_stored [OF stored])
  have second: "saveApplyState params ?saved
                  (emptyPartial\<lparr>p_communicationPreferences := Some preferences\<rparr>)
                  = Inr (session\<lparr>applyStates := (applyStates session)(applyId params \<mapsto>
                      state\<lparr>contactInformation := Some (updatedDataOf parsedData),
                            communicationPreferences := Some preferences\<rparr>)\<rparr>)"
    for preferences
    by (simp add: saveApplyState_def)
  show ?thesis
  proof (cases "communicationPreferences state")
    case None
    then show ?thesis
      using loaded csrf parsed first
      by (simp add: contactInformationAction_def Let_def)
  next
    case (Some preferences)
    then show ?thesis
      using loaded csrf parsed first second [of "preferences\<lparr>prefEmail := email parsedData\<rparr>"]
      by (simp add: contactInformationAction_def Let_def)
  qed
qed

text \<open>
  A successful submission stores the whole of \<open>updatedData\<close> as the contact information
  and touches no other key but, through the email sync, the communication preferences.
\<close>

lemma contactInformationAction_stores_contactInformation:
  assumes loaded: "loadGuarded guard params request session = Inr state"
      and csrf: "csrfTokenMatches session request"
      and parsed: "safeParse (contactInformationData request) = Inr parsedData"
  shows "\<exists>state'.
           loadApplyState params
             (sessionAfter (contactInformationAction env gp guard safeParse params request session))
             = Inr state'
           \<and> contactInformation state' = Some (updatedDataOf parsedData)
           \<and> stateId state' = stateId state
           \<and> (\<forall>k. k \<noteq> KContactInformation \<and> k \<noteq> KCommunicationPreferences
                 \<longrightarrow> sameAt k state state')"
proof -
  have other: "sameAt k state
                 (state\<lparr>contactInformation := Some contact\<rparr>)
               \<and> sameAt k state
                 (state\<lparr>contactInformation := Some contact,
                        communicationPreferences := Some preferences\<rparr>)"
    if "k \<noteq> KContactInformation" and "k \<noteq> KCommunicationPreferences"
    for k contact preferences
    using that by (cases k) simp_all
  show ?thesis
    unfolding contactInformationAction_success_run
      [where guard = guard and safeParse = safeParse and env = env and gp = gp,
       OF loaded csrf parsed]
    using other by (simp split: option.splits)
qed

text \<open>A submission that is not successful leaves the session as it was.\<close>

lemma contactInformationAction_failed_run:
  assumes "\<not> (\<exists>state parsedData. loadGuarded guard params request session = Inr state
               \<and> csrfTokenMatches session request
               \<and> safeParse (contactInformationData request) = Inr parsedData)"
  shows "sessionAfter (contactInformationAction env gp guard safeParse params request session)
           = session"
proof (cases "loadGuarded guard params request session")
  case (Inl e)
  then show ?thesis by (simp add: contactInformationAction_def)
next
  case (Inr state)
  show ?thesis
  proof (cases "csrfTokenMatches session request")
    case False
    with Inr show ?thesis by (simp add: contactInformationAction_def)
  next
    case True
    with assms Inr obtain errors
      where "safeParse (contactInformationData request) = Inl errors"
      by (cases "safeParse (contactInformationData request)") auto
    with Inr True show ?thesis by (simp add: contactInformationAction_def)
  qed
qed

text \<open>
  C10. Take any stored wizard state and any request to the contact-information step of
  the child flow. After the action, the stored communication preferences are the loaded
  ones with their email overwritten by the submitted email, if the submission is
  successful, its data contain an email and the preferred method of the loaded
  preferences is the email method; for every other input they are the ones stored
  before.
\<close>

theorem contactInformationAction_email_sync:
  fixes result :: "('j, 'r) ActionResult"
  assumes run: "result = contactInformationAction env gp guard safeParse params request session"
      and stored: "loadApplyState params session = Inr state"
  shows "\<exists>state'. loadApplyState params (sessionAfter result) = Inr state'
           \<and> communicationPreferences state'
               = (if emailSyncApplies env guard safeParse params request session
                  then map_option
                         (\<lambda>preferences. preferences\<lparr>prefEmail := submittedEmail safeParse request\<rparr>)
                         (communicationPreferences state)
                  else communicationPreferences state)"
proof (cases "\<exists>loaded parsedData. loadGuarded guard params request session = Inr loaded
                \<and> csrfTokenMatches session request
                \<and> safeParse (contactInformationData request) = Inr parsedData")
  case True
  then obtain loaded parsedData where
    loaded: "loadGuarded guard params request session = Inr loaded"
    and csrf: "csrfTokenMatches session request"
    and parsed: "safeParse (contactInformationData request) = Inr parsedData"
    by blast
  from loaded stored have same: "loaded = state"
    by (simp add: loadGuarded_Inr)
  show ?thesis
    unfolding run contactInformationAction_success_run
      [where guard = guard and safeParse = safeParse and env = env and gp = gp,
       OF loaded csrf parsed]
    using loaded csrf parsed same
    by (simp add: emailSyncApplies_def submittedEmail_def split: option.splits)
next
  case False
  from contactInformationAction_failed_run
    [where guard = guard and safeParse = safeParse and env = env and gp = gp, OF False]
  have unchanged: "sessionAfter result = session"
    unfolding run .
  from False have "\<not> emailSyncApplies env guard safeParse params request session"
    by (auto simp add: emailSyncApplies_def split: sum.splits)
  with unchanged stored show ?thesis
    by simp
qed

lemma contact_example_facts:
  "emailSyncApplies exampleEnv letThrough acceptAll exampleParams
     (contactRequest [(''email'', ''new@example.com''), (''confirmEmail'', ''new@example.com'')])
     (sessionWith (completeState Child))"
  "submittedEmail acceptAll
     (contactRequest [(''email'', ''new@example.com''), (''confirmEmail'', ''new@example.com'')])
     = Some ''new@example.com''"
  "\<not> emailSyncApplies exampleEnv letThrough acceptAll exampleParams
       (contactRequest []) (sessionWith (completeState Child))"
  "communicationPreferences (completeState Child) = Some examplePreferences"
  by (simp_all add: emailSyncApplies_def submittedEmail_def acceptAll_def
      contactInformationData_def formValue_def formValueOrEmpty_def truthy_def
      contactRequest_def requestFor_def loadGuarded_def letThrough_def
      csrfTokenMatches_def stringOfUndefined_def stringOfNull_def sessionWith_def
      loadApplyState_def exampleParams_def completeState_def examplePreferences_def
      exampleEnv_def)

theorem contactInformationAction_email_sync_witness:
  "loadApplyState exampleParams (sessionWith (completeState Child)) = Inr (completeState Child)
   \<and> emailSyncApplies exampleEnv letThrough acceptAll exampleParams
       (contactRequest [(''email'', ''new@example.com''), (''confirmEmail'', ''new@example.com'')])
       (sessionWith (completeState Child))
   \<and> map_sum id communicationPreferences
       (loadApplyState exampleParams
          (sessionAfter (contactRun
             [(''email'', ''new@example.com''), (''confirmEmail'', ''new@example.com'')]
             (sessionWith (completeState Child)))))
       = Inr (Some (examplePreferences\<lparr>prefEmail := Some ''new@example.com''\<rparr>))
   \<and> \<not> emailSyncApplies exampleEnv letThrough acceptAll exampleParams
         (contactRequest []) (sessionWith (completeState Child))
   \<and> map_sum id communicationPreferences
       (loadApplyState exampleParams
          (sessionAfter (contactRun [] (sessionWith (completeState Child)))))
       = Inr (Some examplePreferences)"
proof -
  have stored:
    "loadApplyState exampleParams (sessionWith (completeState Child))
       = Inr (completeState Child)"
    by simp
  from contactInformationAction_email_sync
    [OF contactRun_def
       [where emailFields =
          "[(''email'', ''new@example.com''), (''confirmEmail'', ''new@example.com'')]"]
       stored]
  have withEmail:
    "map_sum id communicationPreferences
       (loadApplyState exampleParams
          (sessionAfter (contactRun
             [(''email'', ''new@example.com''), (''confirmEmail'', ''new@example.com'')]
             (sessionWith (completeState Child)))))
       = Inr (Some (examplePreferences\<lparr>prefEmail := Some ''new@example.com''\<rparr>))"
    by (auto simp add: contact_example_facts)
  from contactInformationAction_email_sync
    [OF contactRun_def [where emailFields = "[]"] stored]
  have withoutEmail:
    "map_sum id communicationPreferences
       (loadApplyState exampleParams
          (sessionAfter (contactRun [] (sessionWith (completeState Child)))))
       = Inr (Some examplePreferences)"
    by (auto simp add: contact_example_facts)
  from stored withEmail withoutEmail show ?thesis
    by (simp add: contact_example_facts)
qed

section \<open>Verifying a confirmation code\<close>

text \<open>The code the handler compares with is one created latest among those of the email.\<close>

lemma foldl_laterCreated:
  "foldl laterCreated x xs \<in> set (x # xs)
   \<and> (\<forall>y \<in> set (x # xs). createdDate y \<le> createdDate (foldl laterCreated x xs))"
proof (induction xs arbitrary: x)
  case Nil
  then show ?case by simp
next
  case (Cons a xs)
  from Cons.IH [of "laterCreated x a"] show ?case
    by (auto simp add: laterCreated_def split: if_splits)
qed

lemma reduce_laterCreated:
  assumes "reduce laterCreated xs = Some latest"
  shows "latest \<in> set xs \<and> (\<forall>y \<in> set xs. createdDate y \<le> createdDate latest)"
proof (cases xs)
  case Nil
  with assms show ?thesis by simp
next
  case (Cons x rest)
  with assms have "latest = foldl laterCreated x rest"
    by simp
  with foldl_laterCreated [of x rest] Cons show ?thesis
    by simp
qed

text \<open>
  What the handler answers to a well-formed body: no code for an email without codes;
  otherwise, with the latest code of the email, valid before the expiry date and expired
  after it when the entered code matches, and a mismatch in every other case, which
  includes a matching code entered at the very instant of the expiry date.
\<close>

lemma verifyHandler_status:
  assumes "validateSubscriptionSchema requestBody = Some (emailEntered, codeEntered)"
  shows "verifyHandler table timeEntered requestBody =
           (case reduce laterCreated (filter (\<lambda>c. entityEmail c = emailEntered) table) of
              None \<Rightarrow> Inr (''noCode'', 200)
            | Some latest \<Rightarrow>
                if entityConfirmationCode latest \<noteq> codeEntered then Inr (''mismatch'', 200)
                else if timeEntered < expiryDate latest then Inr (''Valid'', 200)
                else if timeEntered > expiryDate latest then Inr (''expired'', 200)
                else Inr (''mismatch'', 200))"
  using assms
  by (cases "filter (\<lambda>c. entityEmail c = emailEntered) table")
     (simp_all add: verifyHandler_def Let_def)

text \<open>
  C9, on the failing input. The entered code matches the latest code of the email and
  the request arrives at the instant the code expires: the handler answers
  \<open>mismatch\<close>, neither \<open>Valid\<close> nor \<open>expired\<close>. One millisecond earlier the answer is
  \<open>Valid\<close>, one millisecond later it is \<open>expired\<close>.
\<close>

theorem verifyHandler_at_expiry:
  "validateSubscriptionSchema exampleVerifyBody = Some (''user@example.com'', ''0101'')
   \<and> map entityConfirmationCode (filter (\<lambda>c. entityEmail c = ''user@example.com'') exampleCodes)
       = [''0101'']
   \<and> map expiryDate exampleCodes = [172801000]
   \<and> verifyHandler exampleCodes 172801000 exampleVerifyBody = Inr (''mismatch'', 200)
   \<and> verifyHandler exampleCodes 172800999 exampleVerifyBody = Inr (''Valid'', 200)
   \<and> verifyHandler exampleCodes 172801001 exampleVerifyBody = Inr (''expired'', 200)"
  by (simp add: verifyHandler_def validateSubscriptionSchema_def exampleVerifyBody_def
      exampleCodes_def laterCreated_def)

section \<open>Merging step submissions into the stored state\<close>

text \<open>What one merge does to each key.\<close>

lemma stateId_mergeState [simp]: "stateId (mergeState state p) = stateId state"
  by (simp add: mergeState_def)

lemma holdsIn_mergeState: "hasKey p k \<Longrightarrow> holdsIn k p (mergeState state p)"
  by (cases k) (auto simp add: mergeState_def orElse_def)

lemma sameAt_mergeState: "\<not> hasKey p k \<Longrightarrow> sameAt k state (mergeState state p)"
  by (cases k) (simp_all add: mergeState_def orElse_def)

lemma definedAt_mergeState: "definedAt k state \<Longrightarrow> definedAt k (mergeState state p)"
  by (cases k) (auto simp add: mergeState_def orElse_def split: option.splits)

lemma sameAt_trans: "sameAt k a b \<Longrightarrow> sameAt k b c \<Longrightarrow> sameAt k a c"
  by (cases k) simp_all

lemma sameAt_sym: "sameAt k a b \<Longrightarrow> sameAt k b a"
  by (cases k) simp_all

lemma holdsIn_sameAt: "holdsIn k p a \<Longrightarrow> sameAt k a b \<Longrightarrow> holdsIn k p b"
  by (cases k) simp_all

lemma holdsIn_agree: "holdsIn k p a \<Longrightarrow> holdsIn k p b \<Longrightarrow> sameAt k a b"
  by (cases k) simp_all

text \<open>Two states with the same id that agree on every key are the same state.\<close>

lemma state_eqI:
  assumes "stateId a = stateId b" and "\<And>k. sameAt k a b"
  shows "a = b"
proof -
  note same = assms(2)
  from assms(1) same [of KEditMode] same [of KTypeOfApplication] same [of KTaxFiling2023]
    same [of KDateOfBirth] same [of KApplicantInformation] same [of KPartnerInformation]
    same [of KContactInformation] same [of KCommunicationPreferences]
    same [of KDentalInsurance] same [of KDentalBenefits] same [of KChildren]
    same [of KSubmissionInfo]
  show ?thesis
    by (simp add: ApplyState.equality)
qed

lemma disjointKeys_iff: "disjointKeys p q \<longleftrightarrow> (\<forall>k. \<not> (hasKey p k \<and> hasKey q k))"
proof -
  have "k \<in> set allKeys" for k
    by (cases k) (simp_all add: allKeys_def)
  then show ?thesis
    by (auto simp add: disjointKeys_def list_all_iff)
qed

text \<open>A sequence of merges, key by key.\<close>

lemma foldl_mergeState_stateId [simp]: "stateId (foldl mergeState state ps) = stateId state"
  by (induction ps arbitrary: state) simp_all

lemma foldl_mergeState_sameAt:
  "(\<forall>p \<in> set ps. \<not> hasKey p k) \<Longrightarrow> sameAt k state (foldl mergeState state ps)"
proof (induction ps arbitrary: state)
  case Nil
  then show ?case by (cases k) simp_all
next
  case (Cons p ps)
  then have "sameAt k state (mergeState state p)"
    and "sameAt k (mergeState state p) (foldl mergeState (mergeState state p) ps)"
    by (simp_all add: sameAt_mergeState)
  then show ?case
    by (simp add: sameAt_trans [of k state "mergeState state p"])
qed

lemma foldl_mergeState_holdsIn:
  "pairwiseDisjoint ps \<Longrightarrow> p \<in> set ps \<Longrightarrow> hasKey p k
     \<Longrightarrow> holdsIn k p (foldl mergeState state ps)"
proof (induction ps arbitrary: state)
  case Nil
  then show ?case by simp
next
  case (Cons q ps)
  show ?case
  proof (cases "p = q")
    case True
    from Cons.prems True have "\<forall>r \<in> set ps. \<not> hasKey r k"
      by (auto simp add: list_all_iff disjointKeys_iff)
    then have "sameAt k (mergeState state p) (foldl mergeState (mergeState state p) ps)"
      by (rule foldl_mergeState_sameAt)
    with holdsIn_mergeState [OF Cons.prems(3), of state] True show ?thesis
      by (simp add: holdsIn_sameAt)
  next
    case False
    with Cons show ?thesis by simp
  qed
qed

lemma foldl_mergeState_definedAt:
  "definedAt k state \<Longrightarrow> definedAt k (foldl mergeState state ps)"
  by (induction ps arbitrary: state) (simp_all add: definedAt_mergeState)

text \<open>Saving a sequence of partial states stores the sequence of merges.\<close>

lemma saveAll_stored:
  assumes "loadApplyState params session = Inr state"
  shows "saveAll params session ps =
           Inr (session\<lparr>applyStates :=
                  (applyStates session)(applyId params \<mapsto> foldl mergeState state ps)\<rparr>)"
  using assms
proof (induction ps arbitrary: session state)
  case Nil
  then have "applyStates session (applyId params) = Some state"
    by (simp add: loadApplyState_def split: option.splits)
  then have "(applyStates session)(applyId params \<mapsto> state) = applyStates session"
    by (simp add: fun_upd_idem)
  then show ?case by simp
next
  case (Cons p ps)
  let ?saved = "session\<lparr>applyStates :=
                  (applyStates session)(applyId params \<mapsto> mergeState state p)\<rparr>"
  have "loadApplyState params ?saved = Inr (mergeState state p)"
    by simp
  from Cons.IH [OF this]
  have rest: "saveAll params ?saved ps =
          Inr (?saved\<lparr>applyStates := (applyStates ?saved)(applyId params \<mapsto>
                 foldl mergeState (mergeState state p) ps)\<rparr>)" .
  have twice: "?saved\<lparr>applyStates := (applyStates ?saved)(applyId params \<mapsto> final)\<rparr>
                 = session\<lparr>applyStates := (applyStates session)(applyId params \<mapsto> final)\<rparr>"
    for final
    by simp
  have "saveAll params session (p # ps) = saveAll params ?saved ps"
    by (simp add: saveApplyState_stored [OF Cons.prems])
  with rest twice show ?case
    by (simp only: foldl.simps)
qed

text \<open>The order of step submissions with no key in common does not matter.\<close>

lemma foldl_mergeState_order:
  assumes "pairwiseDisjoint ps" and "pairwiseDisjoint qs" and "set qs = set ps"
  shows "foldl mergeState state qs = foldl mergeState state ps"
proof (rule state_eqI)
  show "stateId (foldl mergeState state qs) = stateId (foldl mergeState state ps)"
    by simp
next
  fix k
  show "sameAt k (foldl mergeState state qs) (foldl mergeState state ps)"
  proof (cases "\<exists>p \<in> set ps. hasKey p k")
    case True
    then obtain p where p: "p \<in> set ps" "hasKey p k"
      by blast
    with assms have "holdsIn k p (foldl mergeState state qs)"
      and "holdsIn k p (foldl mergeState state ps)"
      by (simp_all add: foldl_mergeState_holdsIn)
    then show ?thesis
      by (rule holdsIn_agree)
  next
    case False
    with assms have "sameAt k state (foldl mergeState state qs)"
      and "sameAt k state (foldl mergeState state ps)"
      by (simp_all add: foldl_mergeState_sameAt)
    then show ?thesis
      using sameAt_sym sameAt_trans by blast
  qed
qed

text \<open>
  C6. Take a stored wizard state and a sequence of step submissions (partial states
  handed to \<open>saveApplyState\<close>) of which no two have a key in common. Saving them one
  after the other stores a state with the same id in which every submitted key holds
  the value submitted for it, every key that no submission has is as it was, and every
  key that was set is still set; any other order of the same submissions stores the same
  state.
\<close>

theorem saveAll_disjoint_union:
  assumes stored: "loadApplyState params session = Inr state"
      and disjoint: "pairwiseDisjoint ps"
  shows "\<exists>final.
           saveAll params session ps
             = Inr (session\<lparr>applyStates := (applyStates session)(applyId params \<mapsto> final)\<rparr>)
           \<and> stateId final = stateId state
           \<and> (\<forall>p \<in> set ps. \<forall>k. hasKey p k \<longrightarrow> holdsIn k p final)
           \<and> (\<forall>k. (\<forall>p \<in> set ps. \<not> hasKey p k) \<longrightarrow> sameAt k state final)
           \<and> (\<forall>k. definedAt k state \<longrightarrow> definedAt k final)
           \<and> (\<forall>qs. pairwiseDisjoint qs \<and> set qs = set ps \<longrightarrow>
                 saveAll params session qs = saveAll params session ps)"
proof (intro exI conjI)
  show "saveAll params session ps
          = Inr (session\<lparr>applyStates :=
                   (applyStates session)(applyId params \<mapsto> foldl mergeState state ps)\<rparr>)"
    by (rule saveAll_stored [OF stored])
  show "stateId (foldl mergeState state ps) = stateId state"
    by simp
  show "\<forall>p \<in> set ps. \<forall>k. hasKey p k \<longrightarrow> holdsIn k p (foldl mergeState state ps)"
    using disjoint by (simp add: foldl_mergeState_holdsIn)
  show "\<forall>k. (\<forall>p \<in> set ps. \<not> hasKey p k) \<longrightarrow> sameAt k state (foldl mergeState state ps)"
    by (simp add: foldl_mergeState_sameAt)
  show "\<forall>k. definedAt k state \<longrightarrow> definedAt k (foldl mergeState state ps)"
    by (simp add: foldl_mergeState_definedAt)
  show "\<forall>qs. pairwiseDisjoint qs \<and> set qs = set ps \<longrightarrow>
          saveAll params session qs = saveAll params session ps"
  proof (intro allI impI)
    fix qs
    assume "pairwiseDisjoint qs \<and> set qs = set ps"
    with disjoint have "foldl mergeState state qs = foldl mergeState state ps"
      by (intro foldl_mergeState_order) simp_all
    then show "saveAll params session qs = saveAll params session ps"
      by (simp only: saveAll_stored [OF stored])
  qed
qed

lemma merge_example_facts:
  "pairwiseDisjoint [contactPartial, preferencesPartial]"
  "pairwiseDisjoint [preferencesPartial, contactPartial]"
  "foldl mergeState earlyState [contactPartial, preferencesPartial] = completeState Child"
  by (simp_all add: disjointKeys_def allKeys_def contactPartial_def preferencesPartial_def
      emptyPartial_def mergeState_def orElse_def earlyState_def completeState_def)

theorem saveAll_disjoint_union_witness:
  "loadApplyState exampleParams (sessionWith earlyState) = Inr earlyState
   \<and> pairwiseDisjoint [contactPartial, preferencesPartial]
   \<and> saveAll exampleParams (sessionWith earlyState) [contactPartial, preferencesPartial]
       = Inr (sessionWith (completeState Child))
   \<and> pairwiseDisjoint [preferencesPartial, contactPartial]
   \<and> set [preferencesPartial, contactPartial] = set [contactPartial, preferencesPartial]
   \<and> saveAll exampleParams (sessionWith earlyState) [preferencesPartial, contactPartial]
       = Inr (sessionWith (completeState Child))"
proof -
  have stored: "loadApplyState exampleParams (sessionWith earlyState) = Inr earlyState"
    by simp
  have forward:
    "saveAll exampleParams (sessionWith earlyState) [contactPartial, preferencesPartial]
       = Inr (sessionWith (completeState Child))"
    by (simp only: saveAll_stored [OF stored] merge_example_facts example_request_facts)
  have reordered:
    "set [preferencesPartial, contactPartial] = set [contactPartial, preferencesPartial]"
    by auto
  from saveAll_disjoint_union [OF stored merge_example_facts(1)]
  have "pairwiseDisjoint qs \<and> set qs = set [contactPartial, preferencesPartial] \<longrightarrow>
          saveAll exampleParams (sessionWith earlyState) qs
            = saveAll exampleParams (sessionWith earlyState)
                [contactPartial, preferencesPartial]" for qs
    by blast
  from this [of "[preferencesPartial, contactPartial]"] reordered
  have "saveAll exampleParams (sessionWith earlyState) [preferencesPartial, contactPartial]
          = Inr (sessionWith (completeState Child))"
    by (simp only: merge_example_facts forward simp_thms)
  with stored forward reordered show ?thesis
    by (simp only: merge_example_facts simp_thms)
qed
end
